theory Spec2Isabelle
  imports Complex_Main "HOL-Library.Word"
begin

unbundle bit_operations_syntax

section \<open>Conventions of the embedding\<close>

text \<open>
  The development embeds the pixel surface (surface.cpp, surface.h, color.h), the
  GPU resource manager (graphics.cpp, graphics.h) and the application loop (app.cpp,
  app.h) of Pixel Runtime.

  \<^item> A C++ method \<^verbatim>\<open>Class::method\<close> is the constant \<open>Class_method\<close>; it takes the
    object first and returns the updated object. The fields of a class are the
    fields of the record of the same name (\<open>Surface.width s\<close>).
  \<^item> \<^verbatim>\<open>PXR_ASSERT(cond, msg)\<close> ends the process when \<open>cond\<close> is false (abort in a
    debug build, exit(EXIT_FAILURE) in a release build, after the message went to
    the error sink). A call that ends so returns \<open>Inl (AssertionFailed msg)\<close>.
  \<^item> \<^verbatim>\<open>uint8_t\<close>, \<^verbatim>\<open>uint32_t\<close> and \<^verbatim>\<open>uint64_t\<close> are words, whose arithmetic wraps.
    \<^verbatim>\<open>int\<close> is \<open>int\<close>: signed overflow is undefined in C++, and the model describes
    the executions in which it does not occur. Division and remainder of \<^verbatim>\<open>int\<close>
    truncate towards zero.
\<close>

type_synonym uint8 = "8 word"
type_synonym uint32 = "32 word"
type_synonym uint64 = "64 word"

datatype error =
    AssertionFailed string  \<comment> \<open>a failed \<^verbatim>\<open>PXR_ASSERT\<close>, with its message\<close>
  | LengthError             \<comment> \<open>\<^verbatim>\<open>std::length_error\<close>, thrown by \<^verbatim>\<open>std::vector\<close>\<close>
  | OutOfRange              \<comment> \<open>an unchecked vector access outside the buffer\<close>
  | DivisionByZero          \<comment> \<open>an \<^verbatim>\<open>int\<close> division whose divisor is 0\<close>
  | NullDereference         \<comment> \<open>a method called through a null \<^verbatim>\<open>unique_ptr\<close>\<close>

definition andThen :: "error + 'a \<Rightarrow> ('a \<Rightarrow> error + 'b) \<Rightarrow> error + 'b" where
  "andThen m f = (case m of Inl e \<Rightarrow> Inl e | Inr x \<Rightarrow> f x)"

section \<open>Color (color.h)\<close>

text \<open>
  \<^verbatim>\<open>struct Color\<close> has one private field, the packed value 0xAARRGGBB. \<open>Packed\<close>
  wraps that field and \<open>toUInt32\<close> reads it. The only constructor the struct
  declares takes the four 8-bit channels; it is the constant \<open>Color\<close>.
\<close>

datatype Color = Packed (toUInt32: uint32)

definition Color :: "uint8 \<Rightarrow> uint8 \<Rightarrow> uint8 \<Rightarrow> uint8 \<Rightarrow> Color" where
  "Color red green blue alpha =
     Packed (push_bit 24 (ucast alpha) OR push_bit 16 (ucast red)
             OR push_bit 8 (ucast green) OR ucast blue)"

definition Color_r :: "Color \<Rightarrow> uint8" where
  "Color_r c = ucast (drop_bit 16 (toUInt32 c) AND 0xFF)"

definition Color_g :: "Color \<Rightarrow> uint8" where
  "Color_g c = ucast (drop_bit 8 (toUInt32 c) AND 0xFF)"

definition Color_b :: "Color \<Rightarrow> uint8" where
  "Color_b c = ucast (toUInt32 c AND 0xFF)"

definition Color_a :: "Color \<Rightarrow> uint8" where
  "Color_a c = ucast (drop_bit 24 (toUInt32 c) AND 0xFF)"

definition Color_Black :: Color where "Color_Black = Color 0 0 0 255"
definition Color_White :: Color where "Color_White = Color 255 255 255 255"
definition Color_Red :: Color where "Color_Red = Color 255 0 0 255"
definition Color_Green :: Color where "Color_Green = Color 0 255 0 255"

section \<open>Surface (surface.cpp)\<close>

record Surface =
  width :: int
  height :: int
  pixels :: "uint32 list"

text \<open>
  The class invariant of a surface: the buffer holds one element per pixel. The
  constructor establishes it and every method keeps it (lemmas below).
\<close>

definition Surface_wf :: "Surface \<Rightarrow> bool" where
  "Surface_wf s =
     (0 \<le> Surface.width s \<and> 0 \<le> Surface.height s
      \<and> length (pixels s) = nat (Surface.width s * Surface.height s))"

text \<open>
  The constructor. The member initialisers run before the body: the vector is built
  from \<^verbatim>\<open>width * height\<close> converted to \<^verbatim>\<open>size_t\<close>, so a negative product is a count
  above \<^verbatim>\<open>max_size()\<close> and the vector's constructor throws \<^verbatim>\<open>std::length_error\<close>. Only
  then does the body assert that both dimensions are positive.
\<close>

definition Surface_ctor :: "int \<Rightarrow> int \<Rightarrow> Color \<Rightarrow> error + Surface" where
  "Surface_ctor w h backgroundColor =
     (if w * h < 0 then Inl LengthError
      else if \<not> (w > 0 \<and> h > 0)
        then Inl (AssertionFailed ''Surface dimensions must be positive.'')
      else Inr \<lparr>width = w, height = h,
                pixels = replicate (nat (w * h)) (toUInt32 backgroundColor)\<rparr>)"

definition Surface_clear :: "Surface \<Rightarrow> Color \<Rightarrow> Surface" where
  "Surface_clear s color = s\<lparr>pixels := map (\<lambda>_. toUInt32 color) (pixels s)\<rparr>"

definition Surface_isInBounds :: "Surface \<Rightarrow> int \<Rightarrow> int \<Rightarrow> bool" where
  "Surface_isInBounds s x y =
     (x \<ge> 0 \<and> y \<ge> 0 \<and> x < Surface.width s \<and> y < Surface.height s)"

text \<open>
  \<^verbatim>\<open>pixels[y * width + x]\<close> is an unchecked access; outside the buffer it is
  undefined, which the model reports as \<open>OutOfRange\<close>.
\<close>

definition Surface_setPixel :: "Surface \<Rightarrow> int \<Rightarrow> int \<Rightarrow> Color \<Rightarrow> error + Surface" where
  "Surface_setPixel s x y color =
     (if \<not> Surface_isInBounds s x y
        then Inl (AssertionFailed ''setPixel() out of bounds.'')
      else if \<not> nat (y * Surface.width s + x) < length (pixels s) then Inl OutOfRange
      else Inr (s\<lparr>pixels := (pixels s)[nat (y * Surface.width s + x) := toUInt32 color]\<rparr>))"

definition Surface_setPixel_rgb ::
    "Surface \<Rightarrow> int \<Rightarrow> int \<Rightarrow> uint8 \<Rightarrow> uint8 \<Rightarrow> uint8 \<Rightarrow> error + Surface" where
  "Surface_setPixel_rgb s x y r g b = Surface_setPixel s x y (Color r g b 255)"

text \<open>
  \<^verbatim>\<open>return Color(pixels[y * width + x]);\<close> The struct has no constructor from a
  packed value, so the expression calls the channel constructor with the packed
  value converted to \<^verbatim>\<open>uint8_t\<close> as \<open>red\<close> and the defaults 0, 0, 255 for the rest.
\<close>

definition Surface_getPixel :: "Surface \<Rightarrow> int \<Rightarrow> int \<Rightarrow> error + Color" where
  "Surface_getPixel s x y =
     (if \<not> Surface_isInBounds s x y
        then Inl (AssertionFailed ''getPixel() out of bounds.'')
      else if \<not> nat (y * Surface.width s + x) < length (pixels s) then Inl OutOfRange
      else Inr (Color (ucast (pixels s ! nat (y * Surface.width s + x))) 0 0 255))"

text \<open>
  \<^verbatim>\<open>blitTo\<close>: the inner loop over \<open>x\<close> and the outer loop over \<open>y\<close>. The source
  and the target are two objects here; a surface blitted onto itself is not
  modelled.
\<close>

function blitTo_row :: "Surface \<Rightarrow> Surface \<Rightarrow> int \<Rightarrow> int \<Rightarrow> int \<Rightarrow> int \<Rightarrow> error + Surface" where
  "blitTo_row src target dstX dstY y x =
     (if x < Surface.width src then
        (let tx = dstX + x; ty = dstY + y in
         if Surface_isInBounds target tx ty then
           andThen (Surface_getPixel src x y) (\<lambda>c.
           andThen (Surface_setPixel target tx ty c) (\<lambda>target'.
             blitTo_row src target' dstX dstY y (x + 1)))
         else blitTo_row src target dstX dstY y (x + 1))
      else Inr target)"
  by pat_completeness auto
termination
  by (relation "measure (\<lambda>(src, target, dstX, dstY, y, x). nat (Surface.width src - x))") auto

function blitTo_rows :: "Surface \<Rightarrow> Surface \<Rightarrow> int \<Rightarrow> int \<Rightarrow> int \<Rightarrow> error + Surface" where
  "blitTo_rows src target dstX dstY y =
     (if y < Surface.height src then
        andThen (blitTo_row src target dstX dstY y 0) (\<lambda>target'.
          blitTo_rows src target' dstX dstY (y + 1))
      else Inr target)"
  by pat_completeness auto
termination
  by (relation "measure (\<lambda>(src, target, dstX, dstY, y). nat (Surface.height src - y))") auto

declare blitTo_row.simps [simp del]
declare blitTo_rows.simps [simp del]

definition Surface_blitTo :: "Surface \<Rightarrow> Surface \<Rightarrow> int \<Rightarrow> int \<Rightarrow> error + Surface" where
  "Surface_blitTo src target dstX dstY = blitTo_rows src target dstX dstY 0"

definition Surface_getWidth :: "Surface \<Rightarrow> int" where
  "Surface_getWidth s = Surface.width s"

definition Surface_getHeight :: "Surface \<Rightarrow> int" where
  "Surface_getHeight s = Surface.height s"

section \<open>The OpenGL context, as graphics.cpp drives it\<close>

text \<open>
  The driver is outside the repository. The model keeps what the claims are about:
  the calls made, in order, with the object names they carry; the names the driver
  hands out (never 0, never one handed out before); the buffer bound to
  \<^verbatim>\<open>GL_PIXEL_UNPACK_BUFFER\<close>; and the driver's answers that the code asserts on.
\<close>

datatype BufferTarget = GL_PIXEL_UNPACK_BUFFER | GL_ARRAY_BUFFER

datatype ShaderType = GL_VERTEX_SHADER | GL_FRAGMENT_SHADER

datatype TexFilter = GL_TEXTURE_MIN_FILTER | GL_TEXTURE_MAG_FILTER

datatype GLcall =
    glGenTextures nat
  | glBindTexture nat
  | glTexImage2D int int
  | glTexParameteri TexFilter
  | glTexSubImage2D int int
  | glDeleteTextures nat
  | glGenBuffers "nat list"
  | glBindBuffer BufferTarget nat
  | glBufferData BufferTarget int
  | glMapBuffer nat
  | memcpy nat "uint32 list"
  | glUnmapBuffer nat
  | glDeleteBuffers "nat list"
  | glGenVertexArrays nat
  | glBindVertexArray nat
  | glEnableVertexAttribArray nat
  | glVertexAttribPointer nat
  | glDeleteVertexArrays nat
  | glCreateShader ShaderType nat
  | glShaderSource nat
  | glCompileShader nat
  | glGetShaderiv nat
  | glDeleteShader nat
  | glCreateProgram nat
  | glAttachShader nat nat
  | glLinkProgram nat
  | glGetProgramiv nat
  | glUseProgram nat
  | glDeleteProgram nat
  | glDrawArrays

record GL =
  nextName :: nat         \<comment> \<open>the next object name the driver hands out\<close>
  calls :: "GLcall list"  \<comment> \<open>the calls made so far, oldest first\<close>
  unpackBinding :: nat    \<comment> \<open>the buffer bound to \<^verbatim>\<open>GL_PIXEL_UNPACK_BUFFER\<close>\<close>
  compileStatus :: bool   \<comment> \<open>the answer to \<^verbatim>\<open>GL_COMPILE_STATUS\<close>\<close>
  linkStatus :: bool      \<comment> \<open>the answer to \<^verbatim>\<open>GL_LINK_STATUS\<close>\<close>
  mapSucceeds :: bool     \<comment> \<open>whether \<^verbatim>\<open>glMapBuffer\<close> returns a pointer\<close>

definition emit :: "GLcall list \<Rightarrow> GL \<Rightarrow> GL" where
  "emit cs ctx = ctx\<lparr>calls := calls ctx @ cs\<rparr>"

definition genName :: "GL \<Rightarrow> nat \<times> GL" where
  "genName ctx = (nextName ctx, ctx\<lparr>nextName := nextName ctx + 1\<rparr>)"

definition bindBuffer :: "BufferTarget \<Rightarrow> nat \<Rightarrow> GL \<Rightarrow> GL" where
  "bindBuffer target name ctx =
     emit [glBindBuffer target name]
       (if target = GL_PIXEL_UNPACK_BUFFER then ctx\<lparr>unpackBinding := name\<rparr> else ctx)"

text \<open>The object names a call creates and the ones it deletes (shader objects apart).\<close>

fun created :: "GLcall \<Rightarrow> nat list" where
  "created (glGenTextures n) = [n]"
| "created (glGenBuffers ns) = ns"
| "created (glGenVertexArrays n) = [n]"
| "created (glCreateProgram n) = [n]"
| "created _ = []"

fun deleted :: "GLcall \<Rightarrow> nat list" where
  "deleted (glDeleteTextures n) = [n]"
| "deleted (glDeleteBuffers ns) = ns"
| "deleted (glDeleteVertexArrays n) = [n]"
| "deleted (glDeleteProgram n) = [n]"
| "deleted _ = []"

section \<open>Graphics (graphics.cpp, graphics.h)\<close>

definition compileShader :: "GL \<Rightarrow> ShaderType \<Rightarrow> error + (nat \<times> GL)" where
  "compileShader ctx type =
     (let (shader, ctx) = genName ctx;
          ctx = emit [glCreateShader type shader, glShaderSource shader,
                      glCompileShader shader, glGetShaderiv shader] ctx
      in if \<not> compileStatus ctx then Inl (AssertionFailed ''Shader compilation failed.'')
         else Inr (shader, ctx))"

definition createShaderProgram :: "GL \<Rightarrow> error + (nat \<times> GL)" where
  "createShaderProgram ctx =
     andThen (compileShader ctx GL_VERTEX_SHADER) (\<lambda>(vertex, ctx).
     andThen (compileShader ctx GL_FRAGMENT_SHADER) (\<lambda>(fragment, ctx).
       let (program, ctx) = genName ctx;
           ctx = emit [glCreateProgram program, glAttachShader program vertex,
                       glAttachShader program fragment, glLinkProgram program,
                       glGetProgramiv program] ctx
       in if \<not> linkStatus ctx then Inl (AssertionFailed ''Shader linking failed.'')
          else Inr (program, emit [glDeleteShader vertex, glDeleteShader fragment] ctx)))"

record Graphics =
  texture :: nat
  pbo :: "nat list"       \<comment> \<open>\<^verbatim>\<open>unsigned int pbo[2]\<close>\<close>
  vao :: nat
  vbo :: nat
  shaderProgram :: nat
  currentPBO :: int
  width :: int
  height :: int

text \<open>The default member initialisers of graphics.h.\<close>

definition Graphics_ctor :: Graphics where
  "Graphics_ctor = \<lparr>texture = 0, pbo = [0, 0], vao = 0, vbo = 0, shaderProgram = 0,
                     currentPBO = 0, width = 0, height = 0\<rparr>"

definition Graphics_createTexture :: "GL \<Rightarrow> Graphics \<Rightarrow> int \<Rightarrow> int \<Rightarrow> GL \<times> Graphics" where
  "Graphics_createTexture ctx g w h =
     (let (name, ctx) = genName ctx;
          g = g\<lparr>texture := name\<rparr>
      in (emit [glGenTextures name, glBindTexture (texture g), glTexImage2D w h,
                glTexParameteri GL_TEXTURE_MIN_FILTER, glTexParameteri GL_TEXTURE_MAG_FILTER,
                glBindTexture 0] ctx, g))"

definition Graphics_createPBOs :: "GL \<Rightarrow> Graphics \<Rightarrow> GL \<times> Graphics" where
  "Graphics_createPBOs ctx g =
     (let (name0, ctx) = genName ctx;
          (name1, ctx) = genName ctx;
          g = g\<lparr>pbo := [name0, name1]\<rparr>;
          ctx = emit [glGenBuffers (pbo g)] ctx;
          ctx = fold (\<lambda>i ctx.
                  emit [glBufferData GL_PIXEL_UNPACK_BUFFER (Graphics.width g * Graphics.height g * 4)]
                    (bindBuffer GL_PIXEL_UNPACK_BUFFER (pbo g ! i) ctx))
                [0, 1] ctx
      in (bindBuffer GL_PIXEL_UNPACK_BUFFER 0 ctx, g))"

definition Graphics_createQuad :: "GL \<Rightarrow> Graphics \<Rightarrow> GL \<times> Graphics" where
  "Graphics_createQuad ctx g =
     (let (name, ctx) = genName ctx;
          g = g\<lparr>vao := name\<rparr>;
          ctx = emit [glGenVertexArrays (vao g)] ctx;
          (name, ctx) = genName ctx;
          g = g\<lparr>vbo := name\<rparr>;
          ctx = emit [glGenBuffers [vbo g], glBindVertexArray (vao g)] ctx;
          ctx = bindBuffer GL_ARRAY_BUFFER (vbo g) ctx
      in (emit [glBufferData GL_ARRAY_BUFFER 64,
                glEnableVertexAttribArray 0, glVertexAttribPointer 0,
                glEnableVertexAttribArray 1, glVertexAttribPointer 1,
                glBindVertexArray 0] ctx, g))"

definition Graphics_createShaders :: "GL \<Rightarrow> Graphics \<Rightarrow> error + (GL \<times> Graphics)" where
  "Graphics_createShaders ctx g =
     andThen (createShaderProgram ctx) (\<lambda>(program, ctx).
       Inr (ctx, g\<lparr>shaderProgram := program\<rparr>))"

definition Graphics_initialize :: "GL \<Rightarrow> Graphics \<Rightarrow> Surface \<Rightarrow> error + (GL \<times> Graphics)" where
  "Graphics_initialize ctx g surface =
     (let g = g\<lparr>width := Surface_getWidth surface\<rparr>;
          g = g\<lparr>height := Surface_getHeight surface\<rparr>;
          (ctx, g) = Graphics_createTexture ctx g (Graphics.width g) (Graphics.height g);
          (ctx, g) = Graphics_createPBOs ctx g;
          (ctx, g) = Graphics_createQuad ctx g
      in Graphics_createShaders ctx g)"

text \<open>\<^verbatim>\<open>a % b\<close> and \<^verbatim>\<open>a / b\<close> on \<^verbatim>\<open>int\<close>: the quotient truncates towards zero.\<close>

definition c_quot :: "int \<Rightarrow> int \<Rightarrow> int" where
  "c_quot a b = sgn a * sgn b * (\<bar>a\<bar> div \<bar>b\<bar>)"

definition c_rem :: "int \<Rightarrow> int \<Rightarrow> int" where
  "c_rem a b = a - b * c_quot a b"

definition Graphics_upload :: "GL \<Rightarrow> Graphics \<Rightarrow> Surface \<Rightarrow> error + (GL \<times> Graphics)" where
  "Graphics_upload ctx g surface =
     (if \<not> (Surface_getWidth surface = Graphics.width g
             \<and> Surface_getHeight surface = Graphics.height g)
        then Inl (AssertionFailed ''Surface size mismatch.'')
      else
        let g = g\<lparr>currentPBO := c_rem (currentPBO g + 1) 2\<rparr>;
            ctx = bindBuffer GL_PIXEL_UNPACK_BUFFER (pbo g ! nat (currentPBO g)) ctx;
            ctx = emit [glMapBuffer (unpackBinding ctx)] ctx
        in if \<not> mapSucceeds ctx then Inl (AssertionFailed ''PBO mapping failed.'')
           else
             let ctx = emit [memcpy (unpackBinding ctx) (pixels surface),
                             glUnmapBuffer (unpackBinding ctx),
                             glBindTexture (texture g),
                             glTexSubImage2D (Graphics.width g) (Graphics.height g)] ctx
             in Inr (bindBuffer GL_PIXEL_UNPACK_BUFFER 0 ctx, g))"

definition Graphics_render :: "GL \<Rightarrow> Graphics \<Rightarrow> int \<Rightarrow> GL" where
  "Graphics_render ctx g pixelSize =
     emit [glUseProgram (shaderProgram g), glBindVertexArray (vao g),
           glBindTexture (texture g), glDrawArrays, glBindVertexArray 0, glUseProgram 0] ctx"

definition Graphics_destroy :: "GL \<Rightarrow> Graphics \<Rightarrow> GL \<times> Graphics" where
  "Graphics_destroy ctx g =
     (let ctx = (if texture g \<noteq> 0 then emit [glDeleteTextures (texture g)] ctx else ctx);
          ctx = (if pbo g ! 0 \<noteq> 0 then emit [glDeleteBuffers (pbo g)] ctx else ctx);
          ctx = (if vao g \<noteq> 0 then emit [glDeleteVertexArrays (vao g)] ctx else ctx);
          ctx = (if vbo g \<noteq> 0 then emit [glDeleteBuffers [vbo g]] ctx else ctx);
          ctx = (if shaderProgram g \<noteq> 0 then emit [glDeleteProgram (shaderProgram g)] ctx
                 else ctx)
      in (ctx, g\<lparr>texture := 0, vao := 0, vbo := 0, shaderProgram := 0, pbo := [0, 0]\<rparr>))"

definition Graphics_resize :: "GL \<Rightarrow> Graphics \<Rightarrow> Surface \<Rightarrow> error + (GL \<times> Graphics)" where
  "Graphics_resize ctx g surface =
     (if Surface_getWidth surface = Graphics.width g
         \<and> Surface_getHeight surface = Graphics.height g
        then Inr (ctx, g)
      else
        let (ctx, g) = Graphics_destroy ctx g;
            g = g\<lparr>width := Surface_getWidth surface\<rparr>;
            g = g\<lparr>height := Surface_getHeight surface\<rparr>
        in Graphics_initialize ctx g surface)"

text \<open>Successive uploads, one surface per frame, as the running loop makes them.\<close>

fun uploads :: "GL \<Rightarrow> Graphics \<Rightarrow> Surface list \<Rightarrow> error + (GL \<times> Graphics)" where
  "uploads ctx g [] = Inr (ctx, g)"
| "uploads ctx g (s # ss) =
     (case Graphics_upload ctx g s of
        Inl e \<Rightarrow> Inl e
      | Inr (ctx', g') \<Rightarrow> uploads ctx' g' ss)"

section \<open>Window and Input (window.cpp, input.cpp)\<close>

text \<open>
  GLFW is outside the repository. \<open>GLFW\<close> holds its answers that window.cpp asserts
  on; a null \<^verbatim>\<open>GLFWwindow*\<close> is the handle 0.
\<close>

record GLFW =
  glfwInitOk :: bool
  createdWindow :: nat   \<comment> \<open>what \<^verbatim>\<open>glfwCreateWindow\<close> returns\<close>
  gladLoaded :: bool

record Window =
  handle :: nat
  width :: int
  height :: int
  title :: string
  vsyncEnabled :: bool

definition Window_ctor :: Window where
  "Window_ctor = \<lparr>handle = 0, width = 640, height = 480, title = ''Pixel Runtime'',
                   vsyncEnabled = True\<rparr>"

definition Window_setVSync :: "Window \<Rightarrow> bool \<Rightarrow> Window" where
  "Window_setVSync win enabled = win\<lparr>Window.vsyncEnabled := enabled\<rparr>"

definition Window_create ::
    "GLFW \<Rightarrow> Window \<Rightarrow> int \<Rightarrow> int \<Rightarrow> string \<Rightarrow> bool \<Rightarrow> error + Window" where
  "Window_create glfw win w h t vsync =
     (if \<not> glfwInitOk glfw then Inl (AssertionFailed ''Failed to initialize GLFW'')
      else
        let win = win\<lparr>Window.width := w, Window.height := h, Window.title := t,
                      Window.vsyncEnabled := vsync\<rparr>;
            win = win\<lparr>handle := createdWindow glfw\<rparr>
        in if \<not> handle win \<noteq> 0 then Inl (AssertionFailed ''Failed to create GLFW window'')
           else if \<not> gladLoaded glfw then Inl (AssertionFailed ''Failed to initialize GLAD'')
           else Inr (Window_setVSync win (Window.vsyncEnabled win)))"

definition Window_destroy :: "Window \<Rightarrow> Window" where
  "Window_destroy win = (if handle win \<noteq> 0 then win\<lparr>handle := 0\<rparr> else win)"

definition Window_getHandle :: "Window \<Rightarrow> nat" where
  "Window_getHandle win = handle win"

record Input =
  window :: nat
  mouseX :: int
  mouseY :: int

definition Input_ctor :: Input where
  "Input_ctor = \<lparr>window = 0, mouseX = 0, mouseY = 0\<rparr>"

definition Input_initialize :: "Input \<Rightarrow> nat \<Rightarrow> error + Input" where
  "Input_initialize inp h =
     (if \<not> h \<noteq> 0 then Inl (AssertionFailed ''GLFW window is null'')
      else Inr (inp\<lparr>Input.window := h\<rparr>))"

text \<open>
  \<^verbatim>\<open>poll\<close> reads the cursor position from GLFW and converts both coordinates to
  \<^verbatim>\<open>int\<close>; the converted pair is the argument.
\<close>

definition Input_poll :: "Input \<Rightarrow> int \<times> int \<Rightarrow> Input" where
  "Input_poll inp cursor = inp\<lparr>mouseX := fst cursor, mouseY := snd cursor\<rparr>"

definition Input_getMouseWindowX :: "Input \<Rightarrow> int" where
  "Input_getMouseWindowX inp = mouseX inp"

definition Input_getMouseWindowY :: "Input \<Rightarrow> int" where
  "Input_getMouseWindowY inp = mouseY inp"

section \<open>App (app.cpp, app.h)\<close>

text \<open>
  \<^verbatim>\<open>float\<close> is a type parameter \<open>'f\<close>, and the operations app.cpp applies to it are
  the fields of \<open>FloatOps\<close>: nothing is assumed about rounding.
\<close>

record 'f FloatOps =
  f_zero :: 'f                         \<comment> \<open>\<^verbatim>\<open>0.0f\<close>\<close>
  f_one :: 'f                          \<comment> \<open>\<^verbatim>\<open>1.0f\<close>\<close>
  f_frame :: 'f                        \<comment> \<open>\<^verbatim>\<open>0.016f\<close>\<close>
  f_add :: "'f \<Rightarrow> 'f \<Rightarrow> 'f"
  f_div :: "'f \<Rightarrow> 'f \<Rightarrow> 'f"
  f_ge :: "'f \<Rightarrow> 'f \<Rightarrow> bool"
  f_of_int :: "int \<Rightarrow> 'f"            \<comment> \<open>\<^verbatim>\<open>static_cast<float>\<close>\<close>

record 'f App =
  width :: int
  height :: int
  pixelSize :: int
  backgroundColor :: Color
  title :: string
  vsyncEnabled :: bool
  inSetupPhase :: bool
  shouldExit :: bool
  frameCount :: uint64
  deltaTime :: 'f
  fps :: 'f
  window :: "Window option"
  graphics :: "Graphics option"
  surface :: "Surface option"
  input :: "Input option"

text \<open>The default member initialisers of app.h; the four \<^verbatim>\<open>unique_ptr\<close>s start null.\<close>

definition App_ctor :: "'f FloatOps \<Rightarrow> 'f App" where
  "App_ctor ops =
     \<lparr>width = 400, height = 400, pixelSize = 1, backgroundColor = Color_Black,
      title = ''Pixel Runtime'', vsyncEnabled = True, inSetupPhase = False,
      shouldExit = False, frameCount = 0, deltaTime = f_frame ops, fps = f_zero ops,
      window = None, graphics = None, surface = None, input = None\<rparr>"

definition App_enforceSetupCall :: "'f App \<Rightarrow> string \<Rightarrow> error + unit" where
  "App_enforceSetupCall a funcName =
     (if \<not> inSetupPhase a
        then Inl (AssertionFailed (funcName @ '' must be called inside setup()''))
      else Inr ())"

definition App_setVSync :: "'f App \<Rightarrow> bool \<Rightarrow> error + 'f App" where
  "App_setVSync a enabled =
     andThen (App_enforceSetupCall a ''setVSync'') (\<lambda>_.
       Inr (a\<lparr>App.vsyncEnabled := enabled\<rparr>))"

definition App_setSize :: "'f App \<Rightarrow> int \<Rightarrow> int \<Rightarrow> error + 'f App" where
  "App_setSize a w h =
     andThen (App_enforceSetupCall a ''setSize'') (\<lambda>_.
       Inr (a\<lparr>App.width := w, App.height := h\<rparr>))"

definition App_setPixelSize :: "'f App \<Rightarrow> int \<Rightarrow> error + 'f App" where
  "App_setPixelSize a sz =
     andThen (App_enforceSetupCall a ''setPixelSize'') (\<lambda>_.
       Inr (a\<lparr>pixelSize := sz\<rparr>))"

definition App_setTitle :: "'f App \<Rightarrow> string \<Rightarrow> error + 'f App" where
  "App_setTitle a t =
     andThen (App_enforceSetupCall a ''setTitle'') (\<lambda>_.
       Inr (a\<lparr>App.title := t\<rparr>))"

definition App_exit :: "'f App \<Rightarrow> 'f App" where
  "App_exit a = a\<lparr>shouldExit := True\<rparr>"

definition App_isInSetupPhase :: "'f App \<Rightarrow> bool" where
  "App_isInSetupPhase a = inSetupPhase a"

definition App_getPixelSize :: "'f App \<Rightarrow> int" where
  "App_getPixelSize a = pixelSize a"

definition App_background :: "'f App \<Rightarrow> Color \<Rightarrow> 'f App" where
  "App_background a color =
     (let a = a\<lparr>backgroundColor := color\<rparr>
      in case surface a of
           None \<Rightarrow> a
         | Some s \<Rightarrow> a\<lparr>surface := Some (Surface_clear s (backgroundColor a))\<rparr>)"

text \<open>The overloads on \<^verbatim>\<open>int\<close> channels convert each channel to \<^verbatim>\<open>uint8_t\<close>.\<close>

definition App_background_rgb :: "'f App \<Rightarrow> int \<Rightarrow> int \<Rightarrow> int \<Rightarrow> 'f App" where
  "App_background_rgb a r g b =
     App_background a (Color (word_of_int r) (word_of_int g) (word_of_int b) 255)"

definition App_drawPixel :: "'f App \<Rightarrow> int \<Rightarrow> int \<Rightarrow> Color \<Rightarrow> error + 'f App" where
  "App_drawPixel a x y color =
     (case surface a of
        None \<Rightarrow> Inr a
      | Some s \<Rightarrow>
          andThen (Surface_setPixel s x y color) (\<lambda>s'. Inr (a\<lparr>surface := Some s'\<rparr>)))"

definition App_drawPixel_rgba ::
    "'f App \<Rightarrow> int \<Rightarrow> int \<Rightarrow> int \<Rightarrow> int \<Rightarrow> int \<Rightarrow> int \<Rightarrow> error + 'f App" where
  "App_drawPixel_rgba a x y r g b al =
     App_drawPixel a x y
       (Color (word_of_int r) (word_of_int g) (word_of_int b) (word_of_int al))"

definition App_drawSurface :: "'f App \<Rightarrow> Surface \<Rightarrow> int \<Rightarrow> int \<Rightarrow> error + 'f App" where
  "App_drawSurface a src x y =
     (case surface a of
        None \<Rightarrow> Inr a
      | Some s \<Rightarrow>
          andThen (Surface_blitTo src s x y) (\<lambda>s'. Inr (a\<lparr>surface := Some s'\<rparr>)))"

text \<open>An \<^verbatim>\<open>int\<close> division: undefined when the divisor is 0.\<close>

definition c_div :: "int \<Rightarrow> int \<Rightarrow> error + int" where
  "c_div a b = (if b = 0 then Inl DivisionByZero else Inr (c_quot a b))"

definition App_getMouseX :: "'f App \<Rightarrow> error + int" where
  "App_getMouseX a =
     (case input a of
        Some inp \<Rightarrow> c_div (Input_getMouseWindowX inp) (pixelSize a)
      | None \<Rightarrow> Inr 0)"

definition App_getMouseY :: "'f App \<Rightarrow> error + int" where
  "App_getMouseY a =
     (case input a of
        Some inp \<Rightarrow> c_div (Input_getMouseWindowY inp) (pixelSize a)
      | None \<Rightarrow> Inr 0)"

definition App_getMouseWindowX :: "'f App \<Rightarrow> int" where
  "App_getMouseWindowX a = (case input a of Some inp \<Rightarrow> Input_getMouseWindowX inp | None \<Rightarrow> 0)"

definition App_getMouseWindowY :: "'f App \<Rightarrow> int" where
  "App_getMouseWindowY a = (case input a of Some inp \<Rightarrow> Input_getMouseWindowY inp | None \<Rightarrow> 0)"

subsection \<open>The user's callbacks\<close>

text \<open>
  \<^verbatim>\<open>setup()\<close> and \<^verbatim>\<open>update()\<close> are overridden by the user. The fields of App are
  private, so a callback changes the App only through the methods above. A callback
  is the list of the calls it makes, chosen from the state it is entered with.
\<close>

datatype Call =
    SetVSync bool
  | SetSize int int
  | SetPixelSize int
  | SetTitle string
  | Exit
  | Background Color
  | BackgroundRGB int int int
  | DrawPixel int int Color
  | DrawPixelRGBA int int int int int int
  | DrawSurface Surface int int

type_synonym 'f callback = "'f App \<Rightarrow> Call list"

fun App_call :: "'f App \<Rightarrow> Call \<Rightarrow> error + 'f App" where
  "App_call a (SetVSync enabled) = App_setVSync a enabled"
| "App_call a (SetSize w h) = App_setSize a w h"
| "App_call a (SetPixelSize sz) = App_setPixelSize a sz"
| "App_call a (SetTitle t) = App_setTitle a t"
| "App_call a Exit = Inr (App_exit a)"
| "App_call a (Background color) = Inr (App_background a color)"
| "App_call a (BackgroundRGB r g b) = Inr (App_background_rgb a r g b)"
| "App_call a (DrawPixel x y color) = App_drawPixel a x y color"
| "App_call a (DrawPixelRGBA x y r g b al) = App_drawPixel_rgba a x y r g b al"
| "App_call a (DrawSurface src x y) = App_drawSurface a src x y"

fun App_calls :: "'f App \<Rightarrow> Call list \<Rightarrow> error + 'f App" where
  "App_calls a [] = Inr a"
| "App_calls a (c # cs) =
     (case App_call a c of Inl e \<Rightarrow> Inl e | Inr a' \<Rightarrow> App_calls a' cs)"

subsection \<open>\<^verbatim>\<open>App::run\<close>\<close>

text \<open>
  What one iteration of the loop reads from outside: the time since the previous
  iteration and the cursor position. The list of frames handed to the loop is the
  sequence of iterations before the window reports the close signal.
\<close>

record 'f Frame =
  delta :: 'f
  cursor :: "int \<times> int"

text \<open>The App, the OpenGL context, and the two locals of \<^verbatim>\<open>run\<close> that outlive an iteration.\<close>

record 'f RunState =
  app :: "'f App"
  ctx :: GL
  fpsTimer :: 'f
  fpsCounter :: int

text \<open>The body of the \<^verbatim>\<open>while\<close> loop. It calls through all four pointers.\<close>

definition App_frame ::
    "'f FloatOps \<Rightarrow> 'f callback \<Rightarrow> 'f Frame \<Rightarrow> 'f RunState \<Rightarrow> error + 'f RunState" where
  "App_frame ops update e st =
     (let a = (app st)\<lparr>deltaTime := delta e\<rparr>
      in case (App.window a, input a) of
           (Some win, Some inp) \<Rightarrow>
             let a = a\<lparr>input := Some (Input_poll inp (cursor e))\<rparr>
             in andThen (App_calls a (update a)) (\<lambda>a.
                  case (graphics a, surface a) of
                    (Some g, Some s) \<Rightarrow>
                      andThen (Graphics_upload (ctx st) g s) (\<lambda>(c, g).
                        let c = Graphics_render c g (pixelSize a);
                            a = a\<lparr>graphics := Some g\<rparr>;
                            a = a\<lparr>frameCount := frameCount a + 1\<rparr>;
                            counter = fpsCounter st + 1;
                            timer = f_add ops (fpsTimer st) (deltaTime a)
                        in if f_ge ops timer (f_one ops)
                           then Inr \<lparr>app = a\<lparr>fps := f_div ops (f_of_int ops counter) timer\<rparr>,
                                     ctx = c, fpsTimer = f_zero ops, fpsCounter = 0\<rparr>
                           else Inr \<lparr>app = a, ctx = c, fpsTimer = timer,
                                     fpsCounter = counter\<rparr>)
                  | _ \<Rightarrow> Inl NullDereference)
         | _ \<Rightarrow> Inl NullDereference)"

fun App_loop ::
    "'f FloatOps \<Rightarrow> 'f callback \<Rightarrow> 'f Frame list \<Rightarrow> 'f RunState \<Rightarrow> error + 'f RunState" where
  "App_loop ops update [] st = Inr st"
| "App_loop ops update (e # es) st =
     (if \<not> shouldExit (app st) then
        (case App_frame ops update e st of
           Inl err \<Rightarrow> Inl err
         | Inr st' \<Rightarrow> App_loop ops update es st')
      else Inr st)"

text \<open>\<^verbatim>\<open>run\<close> up to the loop: the setup phase and the construction of the four objects.\<close>

definition App_startup ::
    "'f FloatOps \<Rightarrow> GLFW \<Rightarrow> 'f callback \<Rightarrow> 'f App \<Rightarrow> GL \<Rightarrow> error + 'f RunState" where
  "App_startup ops glfw setup a c =
     (let a = a\<lparr>inSetupPhase := True\<rparr>
      in andThen (App_calls a (setup a)) (\<lambda>a.
         let a = a\<lparr>inSetupPhase := False\<rparr>;
             a = a\<lparr>window := Some Window_ctor, input := Some Input_ctor,
                    graphics := Some Graphics_ctor\<rparr>
         in andThen (Surface_ctor (App.width a) (App.height a) (backgroundColor a)) (\<lambda>s.
            let a = a\<lparr>surface := Some s\<rparr>
            in andThen (Window_create glfw Window_ctor
                          (Surface_getWidth s * pixelSize a) (Surface_getHeight s * pixelSize a)
                          (App.title a) (App.vsyncEnabled a)) (\<lambda>win.
               andThen (Input_initialize Input_ctor (Window_getHandle win)) (\<lambda>inp.
               andThen (Graphics_initialize c Graphics_ctor s) (\<lambda>(c, g).
                 Inr \<lparr>app = a\<lparr>window := Some win, input := Some inp, graphics := Some g\<rparr>,
                      ctx = c, fpsTimer = f_zero ops, fpsCounter = 0\<rparr>))))))"

text \<open>\<^verbatim>\<open>run\<close> after the loop: the empty \<^verbatim>\<open>destroy()\<close> hook, then \<^verbatim>\<open>window->destroy()\<close>.\<close>

definition App_shutdown :: "'f RunState \<Rightarrow> error + 'f RunState" where
  "App_shutdown st =
     (case App.window (app st) of
        None \<Rightarrow> Inl NullDereference
      | Some win \<Rightarrow> Inr (st\<lparr>app := (app st)\<lparr>window := Some (Window_destroy win)\<rparr>\<rparr>))"

definition App_run ::
    "'f FloatOps \<Rightarrow> GLFW \<Rightarrow> 'f Frame list \<Rightarrow> 'f callback \<Rightarrow> 'f callback
      \<Rightarrow> 'f App \<Rightarrow> GL \<Rightarrow> error + 'f RunState" where
  "App_run ops glfw frames setup update a c =
     andThen (App_startup ops glfw setup a c) (\<lambda>st.
     andThen (App_loop ops update frames st) (\<lambda>st.
       App_shutdown st))"

section \<open>Vocabulary of the statements\<close>

text \<open>The buffers a sequence of calls maps for writing, in order.\<close>

fun mappedBuffers :: "GLcall list \<Rightarrow> nat list" where
  "mappedBuffers [] = []"
| "mappedBuffers (glMapBuffer n # cs) = n # mappedBuffers cs"
| "mappedBuffers (_ # cs) = mappedBuffers cs"

text \<open>
  The configuration setters among the calls, with the name each passes to
  \<^verbatim>\<open>enforceSetupCall\<close>; the calls that set the background color; the drawing
  calls that test \<^verbatim>\<open>surface\<close> first.
\<close>

fun setterName :: "Call \<Rightarrow> string option" where
  "setterName (SetVSync _) = Some ''setVSync''"
| "setterName (SetSize _ _) = Some ''setSize''"
| "setterName (SetPixelSize _) = Some ''setPixelSize''"
| "setterName (SetTitle _) = Some ''setTitle''"
| "setterName _ = None"



text \<open>
  Inputs for the examples: exact arithmetic on the rationals in the place of
  \<^verbatim>\<open>float\<close>, a GLFW and a driver that answer every request, the first names 1, 2, ...
\<close>

definition exact :: "rat FloatOps" where
  "exact = \<lparr>f_zero = 0, f_one = 1, f_frame = 2 / 125, f_add = (+), f_div = (/),
            f_ge = (\<ge>), f_of_int = of_int\<rparr>"

definition glfw_ok :: GLFW where
  "glfw_ok = \<lparr>glfwInitOk = True, createdWindow = 1, gladLoaded = True\<rparr>"

definition gl_ok :: GL where
  "gl_ok = \<lparr>nextName = 1, calls = [], unpackBinding = 0, compileStatus = True,
            linkStatus = True, mapSucceeds = True\<rparr>"

text \<open>
  The element of the buffer for the pixel \<open>(x, y)\<close>, and the packed value of the
  color that \<^verbatim>\<open>getPixel\<close> builds from an element.
\<close>

definition Surface_at :: "Surface \<Rightarrow> int \<Rightarrow> int \<Rightarrow> uint32" where
  "Surface_at s x y = pixels s ! nat (y * Surface.width s + x)"

definition readBack :: "uint32 \<Rightarrow> uint32" where
  "readBack v = toUInt32 (Color (ucast v) 0 0 255)"


text \<open>
  The state of the loop between two iterations: the four objects exist, the
  pipeline has the dimensions of the surface, the driver maps buffers, and the
  setup phase is over.
\<close>

definition App_running :: "'f RunState \<Rightarrow> bool" where
  "App_running st =
     (case (input (app st), graphics (app st), surface (app st)) of
        (Some inp, Some g, Some s) \<Rightarrow>
          Graphics.width g = Surface.width s \<and> Graphics.height g = Surface.height s
          \<and> mapSucceeds (ctx st) \<and> \<not> inSetupPhase (app st)
          \<and> App.window (app st) \<noteq> None
      | _ \<Rightarrow> False)"


text \<open>A pipeline and a loop state as they are after a start-up at 2 by 1.\<close>

definition demo_surface :: Surface where
  "demo_surface = \<lparr>Surface.width = 2, height = 1, pixels = [7, 8]\<rparr>"

definition demo_graphics :: Graphics where
  "demo_graphics = \<lparr>texture = 1, pbo = [2, 3], vao = 4, vbo = 5, shaderProgram = 8,
                     currentPBO = 0, width = 2, height = 1\<rparr>"

definition demo_state :: "rat \<Rightarrow> int \<Rightarrow> rat RunState" where
  "demo_state timer counter =
     \<lparr>app = (App_ctor exact)\<lparr>App.width := 2, App.height := 1,
                              window := Some (Window_ctor\<lparr>handle := 1\<rparr>),
                              graphics := Some demo_graphics, surface := Some demo_surface,
                              input := Some (Input_ctor\<lparr>Input.window := 1\<rparr>)\<rparr>,
      ctx = gl_ok, fpsTimer = timer, fpsCounter = counter\<rparr>"


section \<open>Properties of Surface\<close>

lemma andThen_Inr [simp]: "andThen (Inr x) f = f x"
  by (simp add: andThen_def)

lemma andThen_Inl [simp]: "andThen (Inl e) f = Inl e"
  by (simp add: andThen_def)

lemma index_in_buffer:
  fixes x y w h :: int
  assumes "0 \<le> x" "x < w" "0 \<le> y" "y < h"
  shows "0 \<le> y * w + x" and "y * w + x < w * h"
proof -
  show "0 \<le> y * w + x" using assms by simp
  have "y * w \<le> (h - 1) * w" using assms by (intro mult_right_mono) auto
  then have "y * w + x < (h - 1) * w + w" using assms by linarith
  also have "\<dots> = w * h" by (simp add: algebra_simps)
  finally show "y * w + x < w * h" .
qed

lemma inBounds_index:
  assumes "Surface_wf s" "Surface_isInBounds s x y"
  shows "nat (y * Surface.width s + x) < length (pixels s)"
proof -
  have "y * Surface.width s + x < Surface.width s * Surface.height s"
    using assms by (intro index_in_buffer) (auto simp: Surface_isInBounds_def)
  moreover have "0 \<le> y * Surface.width s + x"
    using assms by (intro index_in_buffer) (auto simp: Surface_isInBounds_def)
  ultimately show ?thesis using assms by (simp add: Surface_wf_def)
qed

text \<open>The class invariant: established by the constructor, kept by the methods.\<close>

lemma Surface_ctor_wf: "Surface_ctor w h c = Inr s \<Longrightarrow> Surface_wf s"
  by (auto simp: Surface_ctor_def Surface_wf_def split: if_splits)

lemma Surface_setPixel_wf:
  "Surface_wf s \<Longrightarrow> Surface_setPixel s x y c = Inr s' \<Longrightarrow> Surface_wf s'"
  by (auto simp: Surface_setPixel_def Surface_wf_def split: if_splits)

lemma Surface_clear_wf: "Surface_wf s \<Longrightarrow> Surface_wf (Surface_clear s c)"
  by (simp add: Surface_clear_def Surface_wf_def)

text \<open>The three outcomes of the constructor.\<close>

lemma Surface_ctor_cases:
  "Surface_ctor w h c =
     (if (w < 0 \<and> 0 < h) \<or> (0 < w \<and> h < 0) then Inl LengthError
      else if w \<le> 0 \<or> h \<le> 0
        then Inl (AssertionFailed ''Surface dimensions must be positive.'')
      else Inr \<lparr>Surface.width = w, height = h,
                pixels = replicate (nat (w * h)) (toUInt32 c)\<rparr>)"
  by (auto simp: Surface_ctor_def mult_less_0_iff)


text \<open>
  What \<^verbatim>\<open>getPixel\<close> returns for a pixel that \<^verbatim>\<open>setPixel\<close> wrote: the blue channel
  of the written color as red, no green, no blue, opaque.
\<close>

lemma ucast_low_byte: "(ucast (w AND 0xFF :: uint32) :: uint8) = ucast w"
proof -
  have m: "(0xFF :: uint32) = mask 8" by (simp add: mask_eq_decr_exp)
  show ?thesis unfolding m by (rule bit_word_eqI) (auto simp: bit_simps)
qed

lemma Surface_getPixel_after_setPixel:
  assumes "Surface_setPixel s x y c = Inr s'"
  shows "Surface_getPixel s' x y = Inr (Color (Color_b c) 0 0 255)"
  using assms
  by (auto simp: Surface_setPixel_def Surface_getPixel_def Surface_isInBounds_def
      Color_b_def ucast_low_byte split: if_splits)

text \<open>
  What \<^verbatim>\<open>blitTo\<close> does, for every source, target and offset: it returns, the target
  keeps its dimensions, a target pixel that no source pixel lands on is unchanged,
  and a target pixel that the source pixel \<open>(x, y)\<close> lands on holds what \<^verbatim>\<open>getPixel\<close>
  reads at \<open>(x, y)\<close> of the source.
\<close>

lemma index_inj:
  fixes x y x' y' w :: int
  assumes "0 \<le> x" "x < w" "0 \<le> x'" "x' < w" "y * w + x = y' * w + x'"
  shows "x = x' \<and> y = y'"
proof -
  have "x = (y * w + x) mod w" using assms(1,2) by simp
  also have "\<dots> = (y' * w + x') mod w" by (simp only: assms(5))
  also have "\<dots> = x'" using assms(3,4) by simp
  finally have x: "x = x'" .
  with assms(5) have "y * w = y' * w" by simp
  moreover have "w \<noteq> 0" using assms by auto
  ultimately show ?thesis using x by simp
qed

lemma setPixel_at:
  assumes "Surface_wf t" "Surface_isInBounds t tx ty"
  shows "\<exists>t'. Surface_setPixel t tx ty c = Inr t' \<and> Surface_wf t'
           \<and> Surface.width t' = Surface.width t \<and> Surface.height t' = Surface.height t
           \<and> (\<forall>x y. Surface_isInBounds t x y \<longrightarrow>
                 Surface_at t' x y = (if x = tx \<and> y = ty then toUInt32 c else Surface_at t x y))"
proof -
  let ?i = "nat (ty * Surface.width t + tx)"
  let ?t = "t\<lparr>pixels := (pixels t)[?i := toUInt32 c]\<rparr>"
  have i: "?i < length (pixels t)" using assms by (rule inBounds_index)
  then have r: "Surface_setPixel t tx ty c = Inr ?t"
    using assms by (simp add: Surface_setPixel_def)
  have "Surface_at ?t x y = (if x = tx \<and> y = ty then toUInt32 c else Surface_at t x y)"
    if b: "Surface_isInBounds t x y" for x y
  proof (cases "x = tx \<and> y = ty")
    case True
    then show ?thesis using i by (simp add: Surface_at_def)
  next
    case False
    have nn: "0 \<le> y * Surface.width t + x" "0 \<le> ty * Surface.width t + tx"
      using b assms(2) by (auto simp: Surface_isInBounds_def)
    have "y * Surface.width t + x \<noteq> ty * Surface.width t + tx"
      using index_inj [of x "Surface.width t" tx y ty] b assms(2) False
      by (auto simp: Surface_isInBounds_def)
    with nn have "nat (y * Surface.width t + x) \<noteq> ?i" by simp
    then show ?thesis using False by (auto simp: Surface_at_def)
  qed
  moreover have "Surface_wf ?t" using assms(1) by (simp add: Surface_wf_def)
  ultimately show ?thesis using r by auto
qed

lemma getPixel_at:
  assumes "Surface_wf s" "Surface_isInBounds s x y"
  shows "Surface_getPixel s x y = Inr (Color (ucast (Surface_at s x y)) 0 0 255)"
  using assms inBounds_index [OF assms] by (simp add: Surface_getPixel_def Surface_at_def)

lemma blitTo_row_result:
  assumes "Surface_wf src" "Surface_wf t" "0 \<le> y" "y < Surface.height src" "0 \<le> x"
  shows "\<exists>t'. blitTo_row src t dstX dstY y x = Inr t' \<and> Surface_wf t'
           \<and> Surface.width t' = Surface.width t \<and> Surface.height t' = Surface.height t
           \<and> (\<forall>tx ty. Surface_isInBounds t tx ty \<longrightarrow>
                 Surface_at t' tx ty =
                   (if ty = dstY + y \<and> x \<le> tx - dstX \<and> tx - dstX < Surface.width src
                    then readBack (Surface_at src (tx - dstX) y)
                    else Surface_at t tx ty))"
  using assms
proof (induction "nat (Surface.width src - x)" arbitrary: x t)
  case 0
  then have "\<not> x < Surface.width src" by simp
  then show ?case using "0.prems" by (auto simp: blitTo_row.simps [of src t dstX dstY y x])
next
  case (Suc n)
  then have lt: "x < Surface.width src" by simp
  have n: "n = nat (Surface.width src - (x + 1))" using Suc.hyps(2) by simp
  have srcb: "Surface_isInBounds src x y"
    using Suc.prems lt by (simp add: Surface_isInBounds_def)
  show ?case
  proof (cases "Surface_isInBounds t (dstX + x) (dstY + y)")
    case False
    from Suc.hyps(1) [OF n Suc.prems(1,2,3,4), of ] Suc.prems(5)
    obtain t' where r: "blitTo_row src t dstX dstY y (x + 1) = Inr t'" "Surface_wf t'"
        "Surface.width t' = Surface.width t" "Surface.height t' = Surface.height t"
      and px: "\<forall>tx ty. Surface_isInBounds t tx ty \<longrightarrow>
                 Surface_at t' tx ty =
                   (if ty = dstY + y \<and> x + 1 \<le> tx - dstX \<and> tx - dstX < Surface.width src
                    then readBack (Surface_at src (tx - dstX) y)
                    else Surface_at t tx ty)"
      by force
    have "blitTo_row src t dstX dstY y x = Inr t'"
      using lt False r(1) by (simp add: blitTo_row.simps [of src t dstX dstY y x])
    moreover have "Surface_at t' tx ty =
                   (if ty = dstY + y \<and> x \<le> tx - dstX \<and> tx - dstX < Surface.width src
                    then readBack (Surface_at src (tx - dstX) y)
                    else Surface_at t tx ty)" if b: "Surface_isInBounds t tx ty" for tx ty
    proof -
      have "\<not> (ty = dstY + y \<and> tx - dstX = x)" using b False by auto
      then show ?thesis using px b by auto
    qed
    ultimately show ?thesis using r by blast
  next
    case True
    from setPixel_at [OF Suc.prems(2) True, of "Color (ucast (Surface_at src x y)) 0 0 255"]
    obtain t1 where s: "Surface_setPixel t (dstX + x) (dstY + y)
                          (Color (ucast (Surface_at src x y)) 0 0 255) = Inr t1"
      and w1: "Surface_wf t1" "Surface.width t1 = Surface.width t"
              "Surface.height t1 = Surface.height t"
      and p1: "\<forall>tx ty. Surface_isInBounds t tx ty \<longrightarrow>
                 Surface_at t1 tx ty = (if tx = dstX + x \<and> ty = dstY + y
                    then readBack (Surface_at src x y) else Surface_at t tx ty)"
      by (auto simp: readBack_def)
    have bb: "Surface_isInBounds t1 tx ty = Surface_isInBounds t tx ty" for tx ty
      using w1 by (simp add: Surface_isInBounds_def)
    from Suc.hyps(1) [OF n Suc.prems(1) w1(1) Suc.prems(3,4)] Suc.prems(5)
    obtain t' where r: "blitTo_row src t1 dstX dstY y (x + 1) = Inr t'" "Surface_wf t'"
        "Surface.width t' = Surface.width t1" "Surface.height t' = Surface.height t1"
      and px: "\<forall>tx ty. Surface_isInBounds t1 tx ty \<longrightarrow>
                 Surface_at t' tx ty =
                   (if ty = dstY + y \<and> x + 1 \<le> tx - dstX \<and> tx - dstX < Surface.width src
                    then readBack (Surface_at src (tx - dstX) y)
                    else Surface_at t1 tx ty)"
      by force
    have "blitTo_row src t dstX dstY y x = Inr t'"
      using lt True r(1) s getPixel_at [OF Suc.prems(1) srcb]
      by (simp add: blitTo_row.simps [of src t dstX dstY y x])
    moreover have "Surface_at t' tx ty =
                   (if ty = dstY + y \<and> x \<le> tx - dstX \<and> tx - dstX < Surface.width src
                    then readBack (Surface_at src (tx - dstX) y)
                    else Surface_at t tx ty)" if b: "Surface_isInBounds t tx ty" for tx ty
    proof (cases "ty = dstY + y \<and> tx - dstX = x")
      case True
      then have "tx = dstX + x" by simp
      then show ?thesis using px p1 b bb lt True by auto
    next
      case False
      then show ?thesis using px p1 b bb by auto
    qed
    ultimately show ?thesis using r w1 by auto
  qed
qed

lemma blitTo_rows_result:
  assumes "Surface_wf src" "Surface_wf t" "0 \<le> y"
  shows "\<exists>t'. blitTo_rows src t dstX dstY y = Inr t' \<and> Surface_wf t'
           \<and> Surface.width t' = Surface.width t \<and> Surface.height t' = Surface.height t
           \<and> (\<forall>tx ty. Surface_isInBounds t tx ty \<longrightarrow>
                 Surface_at t' tx ty =
                   (if y \<le> ty - dstY \<and> ty - dstY < Surface.height src
                       \<and> 0 \<le> tx - dstX \<and> tx - dstX < Surface.width src
                    then readBack (Surface_at src (tx - dstX) (ty - dstY))
                    else Surface_at t tx ty))"
  using assms
proof (induction "nat (Surface.height src - y)" arbitrary: y t)
  case 0
  then have "\<not> y < Surface.height src" by simp
  then show ?case using "0.prems" by (auto simp: blitTo_rows.simps [of src t dstX dstY y])
next
  case (Suc n)
  then have lt: "y < Surface.height src" by simp
  have n: "n = nat (Surface.height src - (y + 1))" using Suc.hyps(2) by simp
  from blitTo_row_result [OF Suc.prems(1,2,3) lt, of 0 dstX dstY]
  obtain t1 where s: "blitTo_row src t dstX dstY y 0 = Inr t1"
    and w1: "Surface_wf t1" "Surface.width t1 = Surface.width t"
            "Surface.height t1 = Surface.height t"
    and p1: "\<forall>tx ty. Surface_isInBounds t tx ty \<longrightarrow>
                 Surface_at t1 tx ty =
                   (if ty = dstY + y \<and> 0 \<le> tx - dstX \<and> tx - dstX < Surface.width src
                    then readBack (Surface_at src (tx - dstX) y)
                    else Surface_at t tx ty)"
    by auto
  have bb: "Surface_isInBounds t1 tx ty = Surface_isInBounds t tx ty" for tx ty
    using w1 by (simp add: Surface_isInBounds_def)
  from Suc.hyps(1) [OF n Suc.prems(1) w1(1)] Suc.prems(3)
  obtain t' where r: "blitTo_rows src t1 dstX dstY (y + 1) = Inr t'" "Surface_wf t'"
      "Surface.width t' = Surface.width t1" "Surface.height t' = Surface.height t1"
    and px: "\<forall>tx ty. Surface_isInBounds t1 tx ty \<longrightarrow>
                 Surface_at t' tx ty =
                   (if y + 1 \<le> ty - dstY \<and> ty - dstY < Surface.height src
                       \<and> 0 \<le> tx - dstX \<and> tx - dstX < Surface.width src
                    then readBack (Surface_at src (tx - dstX) (ty - dstY))
                    else Surface_at t1 tx ty)"
    by force
  have "blitTo_rows src t dstX dstY y = Inr t'"
    using lt s r(1) by (simp add: blitTo_rows.simps [of src t dstX dstY y])
  moreover have "Surface_at t' tx ty =
                   (if y \<le> ty - dstY \<and> ty - dstY < Surface.height src
                       \<and> 0 \<le> tx - dstX \<and> tx - dstX < Surface.width src
                    then readBack (Surface_at src (tx - dstX) (ty - dstY))
                    else Surface_at t tx ty)" if b: "Surface_isInBounds t tx ty" for tx ty
  proof (cases "ty - dstY = y")
    case True
    then have "ty = dstY + y" by simp
    then show ?thesis using px p1 b bb lt by auto
  next
    case False
    then have "ty \<noteq> dstY + y" by auto
    then show ?thesis using px p1 b bb False by auto
  qed
  ultimately show ?case using r w1 by auto
qed

lemma Surface_blitTo_result:
  assumes "Surface_wf src" "Surface_wf target"
  shows "\<exists>t'. Surface_blitTo src target dstX dstY = Inr t' \<and> Surface_wf t'
           \<and> Surface.width t' = Surface.width target
           \<and> Surface.height t' = Surface.height target
           \<and> (\<forall>tx ty. Surface_isInBounds target tx ty \<longrightarrow>
                 Surface_at t' tx ty =
                   (if Surface_isInBounds src (tx - dstX) (ty - dstY)
                    then readBack (Surface_at src (tx - dstX) (ty - dstY))
                    else Surface_at target tx ty))"
proof -
  from blitTo_rows_result [OF assms, of 0 dstX dstY]
  obtain t' where "blitTo_rows src target dstX dstY 0 = Inr t'" "Surface_wf t'"
     "Surface.width t' = Surface.width target" "Surface.height t' = Surface.height target"
     "\<forall>tx ty. Surface_isInBounds target tx ty \<longrightarrow>
                 Surface_at t' tx ty =
                   (if 0 \<le> ty - dstY \<and> ty - dstY < Surface.height src
                       \<and> 0 \<le> tx - dstX \<and> tx - dstX < Surface.width src
                    then readBack (Surface_at src (tx - dstX) (ty - dstY))
                    else Surface_at target tx ty)"
    by auto
  then show ?thesis
    by (auto simp: Surface_blitTo_def Surface_isInBounds_def)
qed

text \<open>Whatever the source, a blit that returns leaves the dimensions of the target.\<close>

lemma Surface_setPixel_dims:
  "Surface_setPixel t x y c = Inr t' \<Longrightarrow>
     Surface.width t' = Surface.width t \<and> Surface.height t' = Surface.height t"
  by (auto simp: Surface_setPixel_def split: if_splits)

lemma blitTo_row_dims:
  "blitTo_row src t dstX dstY y x = Inr t' \<Longrightarrow>
     Surface.width t' = Surface.width t \<and> Surface.height t' = Surface.height t"
proof (induction "nat (Surface.width src - x)" arbitrary: x t)
  case 0
  then show ?case by (simp add: blitTo_row.simps [of src t dstX dstY y x])
next
  case (Suc n)
  then have lt: "x < Surface.width src" by simp
  have n: "n = nat (Surface.width src - (x + 1))" using Suc.hyps(2) by simp
  show ?case
  proof (cases "Surface_isInBounds t (dstX + x) (dstY + y)")
    case False
    then have "blitTo_row src t dstX dstY y (x + 1) = Inr t'"
      using Suc.prems lt by (simp add: blitTo_row.simps [of src t dstX dstY y x])
    from Suc.hyps(1) [OF n this] show ?thesis .
  next
    case True
    then obtain c t1 where "Surface_setPixel t (dstX + x) (dstY + y) c = Inr t1"
      and "blitTo_row src t1 dstX dstY y (x + 1) = Inr t'"
      using Suc.prems lt
      by (auto simp: blitTo_row.simps [of src t dstX dstY y x] andThen_def split: sum.splits)
    with Suc.hyps(1) [OF n, of t1] Surface_setPixel_dims show ?thesis by fastforce
  qed
qed

lemma blitTo_rows_dims:
  "blitTo_rows src t dstX dstY y = Inr t' \<Longrightarrow>
     Surface.width t' = Surface.width t \<and> Surface.height t' = Surface.height t"
proof (induction "nat (Surface.height src - y)" arbitrary: y t)
  case 0
  then show ?case by (simp add: blitTo_rows.simps [of src t dstX dstY y])
next
  case (Suc n)
  then have lt: "y < Surface.height src" by simp
  have n: "n = nat (Surface.height src - (y + 1))" using Suc.hyps(2) by simp
  from Suc.prems lt obtain t1 where "blitTo_row src t dstX dstY y 0 = Inr t1"
    and "blitTo_rows src t1 dstX dstY (y + 1) = Inr t'"
    by (auto simp: blitTo_rows.simps [of src t dstX dstY y] andThen_def split: sum.splits)
  with Suc.hyps(1) [OF n, of t1] blitTo_row_dims [of src t dstX dstY y 0 t1]
  show ?case by simp
qed

text \<open>
  Claim C1 (round trip): for every in-bounds \<open>(x, y)\<close> and color \<open>C\<close>,
  \<^verbatim>\<open>setPixel(x, y, C)\<close> then \<^verbatim>\<open>getPixel(x, y)\<close> returns \<open>C\<close>. The code does not do
  so: on a 1 by 1 surface, writing \<^verbatim>\<open>Color::Red\<close> at (0, 0) and reading the pixel back
  gives \<^verbatim>\<open>Color::Black\<close>, which is another color.
\<close>

theorem setPixel_getPixel_Red_reads_Black:
  "andThen (Surface_ctor 1 1 Color_Black) (\<lambda>s.
   andThen (Surface_setPixel s 0 0 Color_Red) (\<lambda>s.
     Surface_getPixel s 0 0)) = Inr Color_Black
   \<and> Color_Black \<noteq> Color_Red"
  by (simp add: Surface_ctor_def Surface_setPixel_def Surface_getPixel_def
      Surface_isInBounds_def Color_def Color_Black_def Color_Red_def)

text \<open>
  Claim C2 (blit): every source pixel \<open>(x, y)\<close> is copied exactly to
  \<open>(dstX + x, dstY + y)\<close> of the target where that position is inside the target,
  and positions outside are skipped without an error. The code skips them, but it
  does not copy exactly: blitting a 1 by 1 white surface to (1, 0) of a 2 by 1 black
  surface leaves the target pixel (1, 0) red.
\<close>

theorem blitTo_White_leaves_Red:
  "andThen (Surface_ctor 1 1 Color_White) (\<lambda>src.
   andThen (Surface_ctor 2 1 Color_Black) (\<lambda>target.
     Surface_blitTo src target 1 0))
   = Inr \<lparr>Surface.width = 2, height = 1, pixels = [toUInt32 Color_Black, toUInt32 Color_Red]\<rparr>
   \<and> toUInt32 Color_Red \<noteq> toUInt32 Color_White"
  by code_simp

text \<open>
  Claim C3 (construction): constructing a surface fails with the dimension error
  when \<open>width \<le> 0\<close> or \<open>height \<le> 0\<close>, and otherwise gives \<open>width * height\<close> elements
  equal to the packed initial color. The code does not raise the dimension error
  for width -1 and height 5: the vector is built before the dimensions are checked,
  from the count -5, and its constructor throws \<^verbatim>\<open>std::length_error\<close>.
\<close>

theorem Surface_ctor_negative_width_LengthError:
  "Surface_ctor (-1) 5 Color_Black = Inl LengthError
   \<and> Inl LengthError
      \<noteq> (Inl (AssertionFailed ''Surface dimensions must be positive.'') :: error + Surface)"
  by (simp add: Surface_ctor_def)

text \<open>
  Claim C8 (bounds): for every surface and every coordinate outside its bounds
  (\<open>x < 0\<close>, or \<open>y < 0\<close>, or \<open>x \<ge> width\<close>, or \<open>y \<ge> height\<close>), \<^verbatim>\<open>setPixel\<close> and
  \<^verbatim>\<open>getPixel\<close> both fail with their bounds assertion; for every coordinate inside the
  bounds neither fails: \<^verbatim>\<open>setPixel\<close> stores the packed color at \<open>y * width + x\<close> and
  \<^verbatim>\<open>getPixel\<close> returns a color built from the element there. A surface is an object
  with the class invariant \<open>Surface_wf\<close>.
\<close>

theorem setPixel_getPixel_bounds:
  "(x < 0 \<or> y < 0 \<or> x \<ge> Surface.width s \<or> y \<ge> Surface.height s \<longrightarrow>
      Surface_setPixel s x y c = Inl (AssertionFailed ''setPixel() out of bounds.'')
      \<and> Surface_getPixel s x y = Inl (AssertionFailed ''getPixel() out of bounds.''))
   \<and> (Surface_wf s \<and> 0 \<le> x \<and> x < Surface.width s \<and> 0 \<le> y \<and> y < Surface.height s \<longrightarrow>
      Surface_setPixel s x y c
        = Inr (s\<lparr>pixels := (pixels s)[nat (y * Surface.width s + x) := toUInt32 c]\<rparr>)
      \<and> Surface_getPixel s x y
        = Inr (Color (ucast (pixels s ! nat (y * Surface.width s + x))) 0 0 255))"
proof (intro conjI impI)
  assume "x < 0 \<or> y < 0 \<or> x \<ge> Surface.width s \<or> y \<ge> Surface.height s"
  then have "\<not> Surface_isInBounds s x y"
    by (auto simp: Surface_isInBounds_def)
  then show "Surface_setPixel s x y c = Inl (AssertionFailed ''setPixel() out of bounds.'')"
    and "Surface_getPixel s x y = Inl (AssertionFailed ''getPixel() out of bounds.'')"
    by (simp_all add: Surface_setPixel_def Surface_getPixel_def)
next
  assume inside:
    "Surface_wf s \<and> 0 \<le> x \<and> x < Surface.width s \<and> 0 \<le> y \<and> y < Surface.height s"
  then have b: "Surface_isInBounds s x y"
    by (simp add: Surface_isInBounds_def)
  with inside have i: "nat (y * Surface.width s + x) < length (pixels s)"
    by (simp add: inBounds_index)
  from b i show "Surface_setPixel s x y c
        = Inr (s\<lparr>pixels := (pixels s)[nat (y * Surface.width s + x) := toUInt32 c]\<rparr>)"
    by (simp add: Surface_setPixel_def)
  from b i show "Surface_getPixel s x y
        = Inr (Color (ucast (pixels s ! nat (y * Surface.width s + x))) 0 0 255)"
    by (simp add: Surface_getPixel_def)
qed

text \<open>
  The theorem on a 2 by 2 surface: (2, 0) and (0, -1) are outside, (1, 1) is inside
  and is element 3 of the buffer.
\<close>

theorem setPixel_getPixel_bounds_witness:
  "Surface_wf \<lparr>Surface.width = 2, height = 2, pixels = [1, 2, 3, 4]\<rparr>
   \<and> Surface_setPixel \<lparr>Surface.width = 2, height = 2, pixels = [1, 2, 3, 4]\<rparr> 2 0 Color_Red
       = Inl (AssertionFailed ''setPixel() out of bounds.'')
   \<and> Surface_getPixel \<lparr>Surface.width = 2, height = 2, pixels = [1, 2, 3, 4]\<rparr> 0 (-1)
       = Inl (AssertionFailed ''getPixel() out of bounds.'')
   \<and> Surface_setPixel \<lparr>Surface.width = 2, height = 2, pixels = [1, 2, 3, 4]\<rparr> 1 1 (Packed 9)
       = Inr \<lparr>Surface.width = 2, height = 2, pixels = [1, 2, 3, 9]\<rparr>
   \<and> Surface_getPixel \<lparr>Surface.width = 2, height = 2, pixels = [1, 2, 3, 4]\<rparr> 1 1
       = Inr (Color 4 0 0 255)"
  using setPixel_getPixel_bounds
          [of 2 0 "\<lparr>Surface.width = 2, height = 2, pixels = [1, 2, 3, 4]\<rparr>" Color_Red]
        setPixel_getPixel_bounds
          [of 0 "-1" "\<lparr>Surface.width = 2, height = 2, pixels = [1, 2, 3, 4]\<rparr>" Color_Red]
        setPixel_getPixel_bounds
          [of 1 1 "\<lparr>Surface.width = 2, height = 2, pixels = [1, 2, 3, 4]\<rparr>" "Packed 9"]
  by (simp add: Surface_wf_def)

section \<open>Properties of Graphics\<close>

lemma c_rem_flip: "c_rem (0 + 1) 2 = 1" "c_rem (1 + 1) 2 = 0"
  by (simp_all add: c_rem_def c_quot_def)

lemma Graphics_upload_ok:
  assumes "Surface_getWidth s = Graphics.width g" "Surface_getHeight s = Graphics.height g"
      and "mapSucceeds c"
  shows "Graphics_upload c g s =
           Inr (c\<lparr>calls := calls c @
                   [glBindBuffer GL_PIXEL_UNPACK_BUFFER (pbo g ! nat (c_rem (currentPBO g + 1) 2)),
                    glMapBuffer (pbo g ! nat (c_rem (currentPBO g + 1) 2)),
                    memcpy (pbo g ! nat (c_rem (currentPBO g + 1) 2)) (pixels s),
                    glUnmapBuffer (pbo g ! nat (c_rem (currentPBO g + 1) 2)),
                    glBindTexture (texture g),
                    glTexSubImage2D (Graphics.width g) (Graphics.height g),
                    glBindBuffer GL_PIXEL_UNPACK_BUFFER 0],
                  unpackBinding := 0\<rparr>,
                g\<lparr>currentPBO := c_rem (currentPBO g + 1) 2\<rparr>)"
  using assms by (simp add: Graphics_upload_def Let_def emit_def bindBuffer_def)

lemma mappedBuffers_append: "mappedBuffers (xs @ ys) = mappedBuffers xs @ mappedBuffers ys"
  by (induction xs rule: mappedBuffers.induct) simp_all

lemma mod2_shift: "((n::nat) + Suc k + 1) mod 2 = ((n + 1) mod 2 + k + 1) mod 2"
proof -
  have "((n + 1) mod 2 + (k + 1)) mod 2 = ((n + 1) + (k + 1)) mod 2"
    by (rule mod_add_left_eq)
  then show ?thesis by (simp only: ac_simps Suc_eq_plus1)
qed

lemma uploads_alternate:
  assumes "currentPBO g = 0 \<or> currentPBO g = 1"
      and "\<forall>s \<in> set ss. Surface_getWidth s = Graphics.width g \<and> Surface_getHeight s = Graphics.height g"
      and "mapSucceeds c"
  shows "\<exists>c' g'. uploads c g ss = Inr (c', g')
           \<and> currentPBO g' = (currentPBO g + int (length ss)) mod 2
           \<and> pbo g' = pbo g
           \<and> mappedBuffers (calls c') = mappedBuffers (calls c) @
                map (\<lambda>k. pbo g ! ((nat (currentPBO g) + k + 1) mod 2)) [0..<length ss]"
  using assms
proof (induction ss arbitrary: c g)
  case Nil
  then show ?case by auto
next
  case (Cons s ss)
  let ?i = "c_rem (currentPBO g + 1) 2"
  let ?g = "g\<lparr>currentPBO := ?i\<rparr>"
  obtain c1 where up: "Graphics_upload c g s = Inr (c1, ?g)"
    and m1: "mappedBuffers (calls c1) = mappedBuffers (calls c) @ [pbo g ! nat ?i]"
    and ok1: "mapSucceeds c1"
    using Cons.prems by (simp add: Graphics_upload_ok mappedBuffers_append)
  have i: "?i = (currentPBO g + 1) mod 2" "?i = 0 \<or> ?i = 1"
    using Cons.prems(1) by (auto simp: c_rem_def c_quot_def)
  have "\<exists>c' g'. uploads c1 ?g ss = Inr (c', g')
           \<and> currentPBO g' = (currentPBO ?g + int (length ss)) mod 2
           \<and> pbo g' = pbo ?g
           \<and> mappedBuffers (calls c') = mappedBuffers (calls c1) @
                map (\<lambda>k. pbo ?g ! ((nat (currentPBO ?g) + k + 1) mod 2)) [0..<length ss]"
    using Cons.prems i ok1 by (intro Cons.IH) auto
  then obtain c' g' where r: "uploads c1 ?g ss = Inr (c', g')"
    and cur: "currentPBO g' = (?i + int (length ss)) mod 2"
    and pb: "pbo g' = pbo g"
    and mb: "mappedBuffers (calls c') = mappedBuffers (calls c1) @
                map (\<lambda>k. pbo g ! ((nat ?i + k + 1) mod 2)) [0..<length ss]"
    by auto
  have "uploads c g (s # ss) = Inr (c', g')" using up r by simp
  moreover have "currentPBO g' = (currentPBO g + int (length (s # ss))) mod 2"
    using cur i(1) by (simp add: mod_add_left_eq add.assoc) 
  moreover have "mappedBuffers (calls c') = mappedBuffers (calls c) @
                map (\<lambda>k. pbo g ! ((nat (currentPBO g) + k + 1) mod 2)) [0..<length (s # ss)]"
  proof -
    have a: "nat ?i = (nat (currentPBO g) + 1) mod 2"
      using Cons.prems(1) by (auto simp: c_rem_def c_quot_def)
    have "map (\<lambda>k. pbo g ! ((nat (currentPBO g) + k + 1) mod 2)) [0..<length (s # ss)]
        = pbo g ! ((nat (currentPBO g) + 0 + 1) mod 2)
          # map (\<lambda>k. pbo g ! ((nat (currentPBO g) + Suc k + 1) mod 2)) [0..<length ss]"
      unfolding length_Cons by (rule map_upt_Suc)
    then have "map (\<lambda>k. pbo g ! ((nat (currentPBO g) + k + 1) mod 2)) [0..<length (s # ss)]
        = pbo g ! nat ?i # map (\<lambda>k. pbo g ! ((nat ?i + k + 1) mod 2)) [0..<length ss]"
      by (simp only: mod2_shift add_0_right a)
    then show ?thesis using mb m1 by simp
  qed
  ultimately show ?case using pb by blast
qed

lemmas gl_defs = emit_def genName_def bindBuffer_def compileShader_def createShaderProgram_def
  Graphics_createTexture_def Graphics_createPBOs_def Graphics_createQuad_def
  Graphics_createShaders_def Graphics_initialize_def Graphics_destroy_def

lemma Graphics_initialize_ok:
  assumes "compileStatus c" "linkStatus c"
  shows "\<exists>c' new. Graphics_initialize c g s =
            Inr (c', g\<lparr>Graphics.width := Surface_getWidth s, Graphics.height := Surface_getHeight s,
                      texture := nextName c, pbo := [nextName c + 1, nextName c + 2],
                      vao := nextName c + 3, vbo := nextName c + 4,
                      shaderProgram := nextName c + 7\<rparr>)
          \<and> calls c' = calls c @ new
          \<and> concat (map created new)
              = [nextName c, nextName c + 1, nextName c + 2, nextName c + 3, nextName c + 4,
                 nextName c + 7]
          \<and> concat (map deleted new) = []
          \<and> mappedBuffers new = []
          \<and> glTexImage2D (Surface_getWidth s) (Surface_getHeight s) \<in> set new
          \<and> glBufferData GL_PIXEL_UNPACK_BUFFER (Surface_getWidth s * Surface_getHeight s * 4) \<in> set new
          \<and> nextName c' = nextName c + 8
          \<and> unpackBinding c' = 0
          \<and> compileStatus c' \<and> linkStatus c' \<and> mapSucceeds c' = mapSucceeds c"
  using assms by (simp add: gl_defs Let_def)


lemma Graphics_initialize_Inr_status:
  assumes "Graphics_initialize c g s = Inr r"
  shows "compileStatus c \<and> linkStatus c"
  using assms by (cases "compileStatus c"; cases "linkStatus c") (simp_all add: gl_defs Let_def)

text \<open>
  Claim C5 (ping-pong): the active transfer-buffer index is 0 after initialisation;
  every upload of a surface with the dimensions of the initialisation advances the
  index to the other buffer and maps that buffer for writing. So the uploads
  succeed, after \<open>n\<close> of them the index is \<open>n mod 2\<close> (always 0 or 1), the
  \<open>k\<close>-th of them writes to buffer \<open>pbo[k mod 2]\<close>, and the two buffers are
  different, so that two consecutive uploads never write to the same one. The
  driver is taken to map the buffer each time.
\<close>

theorem upload_alternates_buffers:
  assumes init: "Graphics_initialize c0 Graphics_ctor s0 = Inr (c, g)"
      and dims: "\<forall>s \<in> set ss. Surface_getWidth s = Surface_getWidth s0
                   \<and> Surface_getHeight s = Surface_getHeight s0"
      and maps: "mapSucceeds c0"
  shows "currentPBO g = 0 \<and> pbo g ! 0 \<noteq> pbo g ! 1
         \<and> (\<exists>c' g'. uploads c g ss = Inr (c', g')
               \<and> currentPBO g' = int (length ss mod 2)
               \<and> mappedBuffers (calls c')
                   = mappedBuffers (calls c) @ map (\<lambda>k. pbo g ! ((k + 1) mod 2)) [0..<length ss])"
proof -
  from init have st: "compileStatus c0 \<and> linkStatus c0"
    by (rule Graphics_initialize_Inr_status)
  with Graphics_initialize_ok [of c0 Graphics_ctor s0] init
  have g: "g = Graphics_ctor\<lparr>Graphics.width := Surface_getWidth s0,
                 Graphics.height := Surface_getHeight s0,
                 texture := nextName c0, pbo := [nextName c0 + 1, nextName c0 + 2],
                 vao := nextName c0 + 3, vbo := nextName c0 + 4,
                 shaderProgram := nextName c0 + 7\<rparr>"
    and m: "mapSucceeds c"
    using maps by auto
  have cur: "currentPBO g = 0" and two: "pbo g ! 0 \<noteq> pbo g ! 1"
    and w: "Graphics.width g = Surface_getWidth s0" "Graphics.height g = Surface_getHeight s0"
    by (simp_all add: g Graphics_ctor_def)
  from uploads_alternate [of g ss c] cur dims m w
  obtain c' g' where "uploads c g ss = Inr (c', g')"
    and "currentPBO g' = (currentPBO g + int (length ss)) mod 2"
    and "mappedBuffers (calls c') = mappedBuffers (calls c) @
                map (\<lambda>k. pbo g ! ((nat (currentPBO g) + k + 1) mod 2)) [0..<length ss]"
    by auto
  then show ?thesis using cur two by (auto simp: zmod_int)
qed

lemma Graphics_destroy_live:
  assumes "texture g \<noteq> 0" "pbo g ! 0 \<noteq> 0" "vao g \<noteq> 0" "vbo g \<noteq> 0" "shaderProgram g \<noteq> 0"
  shows "Graphics_destroy c g =
           (c\<lparr>calls := calls c @ [glDeleteTextures (texture g), glDeleteBuffers (pbo g),
                                   glDeleteVertexArrays (vao g), glDeleteBuffers [vbo g],
                                   glDeleteProgram (shaderProgram g)]\<rparr>,
            g\<lparr>texture := 0, vao := 0, vbo := 0, shaderProgram := 0, pbo := [0, 0]\<rparr>)"
  using assms by (simp add: Graphics_destroy_def emit_def Let_def)

text \<open>
  Claim C6 (resize): with the dimensions of the pipeline, \<^verbatim>\<open>resize\<close> changes neither
  the pipeline nor the OpenGL context (no call is made). With other dimensions, on
  a pipeline that holds its resources and a driver that compiles and links the
  shaders, it deletes the texture, the two transfer buffers, the vertex array, the
  vertex buffer and the program, each once, and creates each of them once, with
  new names, the texture and the transfer buffers at the new dimensions; a second
  \<^verbatim>\<open>resize\<close> with the same surface then changes nothing.
\<close>

theorem resize_reallocates_once:
  "(Surface_getWidth s = Graphics.width g \<and> Surface_getHeight s = Graphics.height g \<longrightarrow>
      Graphics_resize c g s = Inr (c, g))
   \<and> (\<not> (Surface_getWidth s = Graphics.width g \<and> Surface_getHeight s = Graphics.height g)
      \<and> texture g \<noteq> 0 \<and> pbo g ! 0 \<noteq> 0 \<and> vao g \<noteq> 0 \<and> vbo g \<noteq> 0 \<and> shaderProgram g \<noteq> 0
      \<and> compileStatus c \<and> linkStatus c \<and> 0 < nextName c \<longrightarrow>
      (\<exists>c' g' new. Graphics_resize c g s = Inr (c', g')
         \<and> Graphics.width g' = Surface_getWidth s \<and> Graphics.height g' = Surface_getHeight s
         \<and> calls c' = calls c @ new
         \<and> concat (map deleted new) = texture g # pbo g @ [vao g, vbo g, shaderProgram g]
         \<and> concat (map created new) = texture g' # pbo g' @ [vao g', vbo g', shaderProgram g']
         \<and> distinct (texture g' # pbo g' @ [vao g', vbo g', shaderProgram g'])
         \<and> 0 \<notin> set (texture g' # pbo g' @ [vao g', vbo g', shaderProgram g'])
         \<and> glTexImage2D (Surface_getWidth s) (Surface_getHeight s) \<in> set new
         \<and> glBufferData GL_PIXEL_UNPACK_BUFFER (Surface_getWidth s * Surface_getHeight s * 4)
              \<in> set new
         \<and> Graphics_resize c' g' s = Inr (c', g')))"
proof (intro conjI impI)
  assume "Surface_getWidth s = Graphics.width g \<and> Surface_getHeight s = Graphics.height g"
  then show "Graphics_resize c g s = Inr (c, g)"
    by (simp add: Graphics_resize_def)
next
  assume h: "\<not> (Surface_getWidth s = Graphics.width g \<and> Surface_getHeight s = Graphics.height g)
      \<and> texture g \<noteq> 0 \<and> pbo g ! 0 \<noteq> 0 \<and> vao g \<noteq> 0 \<and> vbo g \<noteq> 0 \<and> shaderProgram g \<noteq> 0
      \<and> compileStatus c \<and> linkStatus c \<and> 0 < nextName c"
  define dels where "dels = [glDeleteTextures (texture g), glDeleteBuffers (pbo g),
                             glDeleteVertexArrays (vao g), glDeleteBuffers [vbo g],
                             glDeleteProgram (shaderProgram g)]"
  define c1 where "c1 = c\<lparr>calls := calls c @ dels\<rparr>"
  define g1 where "g1 = g\<lparr>texture := 0, vao := 0, vbo := 0, shaderProgram := 0, pbo := [0, 0]\<rparr>
                         \<lparr>Graphics.width := Surface_getWidth s\<rparr>
                         \<lparr>Graphics.height := Surface_getHeight s\<rparr>"
  have d: "Graphics_destroy c g
             = (c1, g\<lparr>texture := 0, vao := 0, vbo := 0, shaderProgram := 0, pbo := [0, 0]\<rparr>)"
    using h by (simp add: Graphics_destroy_live c1_def dels_def)
  from h have ne:
    "\<not> (Surface_getWidth s = Graphics.width g \<and> Surface_getHeight s = Graphics.height g)"
    by blast
  have r: "Graphics_resize c g s = Graphics_initialize c1 g1 s"
    unfolding Graphics_resize_def using d by (simp only: ne if_False Let_def split_conv g1_def)
  have s1: "compileStatus c1" "linkStatus c1" "nextName c1 = nextName c"
    using h by (simp_all add: c1_def)
  from Graphics_initialize_ok [OF s1(1,2), of g1 s]
  obtain c' new where i: "Graphics_initialize c1 g1 s =
            Inr (c', g1\<lparr>Graphics.width := Surface_getWidth s, Graphics.height := Surface_getHeight s,
                      texture := nextName c1, pbo := [nextName c1 + 1, nextName c1 + 2],
                      vao := nextName c1 + 3, vbo := nextName c1 + 4,
                      shaderProgram := nextName c1 + 7\<rparr>)"
    and n: "calls c' = calls c1 @ new"
       "concat (map created new)
              = [nextName c1, nextName c1 + 1, nextName c1 + 2, nextName c1 + 3, nextName c1 + 4,
                 nextName c1 + 7]"
       "concat (map deleted new) = []"
       "glTexImage2D (Surface_getWidth s) (Surface_getHeight s) \<in> set new"
       "glBufferData GL_PIXEL_UNPACK_BUFFER (Surface_getWidth s * Surface_getHeight s * 4) \<in> set new"
    by blast
  let ?g = "g1\<lparr>Graphics.width := Surface_getWidth s, Graphics.height := Surface_getHeight s,
                      texture := nextName c1, pbo := [nextName c1 + 1, nextName c1 + 2],
                      vao := nextName c1 + 3, vbo := nextName c1 + 4,
                      shaderProgram := nextName c1 + 7\<rparr>"
  have "Graphics_resize c g s = Inr (c', ?g)" using r i by simp
  moreover have "Graphics.width ?g = Surface_getWidth s \<and> Graphics.height ?g = Surface_getHeight s"
    by simp
  moreover have "calls c' = calls c @ (dels @ new)" using n(1) by (simp add: c1_def)
  moreover have "concat (map deleted (dels @ new))
                   = texture g # pbo g @ [vao g, vbo g, shaderProgram g]"
    using n(3) by (simp add: dels_def)
  moreover have "concat (map created (dels @ new))
                   = texture ?g # pbo ?g @ [vao ?g, vbo ?g, shaderProgram ?g]"
    using n(2) by (simp add: dels_def)
  moreover have "distinct (texture ?g # pbo ?g @ [vao ?g, vbo ?g, shaderProgram ?g])"
    by simp
  moreover have "0 \<notin> set (texture ?g # pbo ?g @ [vao ?g, vbo ?g, shaderProgram ?g])"
    using h s1(3) by simp
  moreover have "glTexImage2D (Surface_getWidth s) (Surface_getHeight s) \<in> set (dels @ new)"
    using n(4) by simp
  moreover have "glBufferData GL_PIXEL_UNPACK_BUFFER (Surface_getWidth s * Surface_getHeight s * 4)
              \<in> set (dels @ new)"
    using n(5) by simp
  moreover have "Graphics_resize c' ?g s = Inr (c', ?g)"
    by (simp add: Graphics_resize_def)
  ultimately show "\<exists>c' g' new. Graphics_resize c g s = Inr (c', g')
         \<and> Graphics.width g' = Surface_getWidth s \<and> Graphics.height g' = Surface_getHeight s
         \<and> calls c' = calls c @ new
         \<and> concat (map deleted new) = texture g # pbo g @ [vao g, vbo g, shaderProgram g]
         \<and> concat (map created new) = texture g' # pbo g' @ [vao g', vbo g', shaderProgram g']
         \<and> distinct (texture g' # pbo g' @ [vao g', vbo g', shaderProgram g'])
         \<and> 0 \<notin> set (texture g' # pbo g' @ [vao g', vbo g', shaderProgram g'])
         \<and> glTexImage2D (Surface_getWidth s) (Surface_getHeight s) \<in> set new
         \<and> glBufferData GL_PIXEL_UNPACK_BUFFER (Surface_getWidth s * Surface_getHeight s * 4)
              \<in> set new
         \<and> Graphics_resize c' g' s = Inr (c', g')"
    by blast
qed


text \<open>Three uploads after an initialisation that got the buffers 2 and 3.\<close>

theorem upload_alternates_buffers_witness:
  "\<exists>c g. Graphics_initialize gl_ok Graphics_ctor \<lparr>Surface.width = 2, height = 1, pixels = [7, 8]\<rparr>
            = Inr (c, g)
     \<and> currentPBO g = 0 \<and> pbo g = [2, 3]
     \<and> (\<exists>c' g'. uploads c g [\<lparr>Surface.width = 2, height = 1, pixels = [7, 8]\<rparr>,
                               \<lparr>Surface.width = 2, height = 1, pixels = [9, 8]\<rparr>,
                               \<lparr>Surface.width = 2, height = 1, pixels = [9, 9]\<rparr>] = Inr (c', g')
           \<and> currentPBO g' = 1
           \<and> mappedBuffers (calls c') = [3, 2, 3])"
proof -
  let ?s0 = "\<lparr>Surface.width = 2, height = 1, pixels = [7, 8]\<rparr>"
  let ?ss = "[?s0, \<lparr>Surface.width = 2, height = 1, pixels = [9, 8]\<rparr>,
              \<lparr>Surface.width = 2, height = 1, pixels = [9, 9]\<rparr>]"
  from Graphics_initialize_ok [of gl_ok Graphics_ctor ?s0]
  obtain c g where h: "Graphics_initialize gl_ok Graphics_ctor ?s0 = Inr (c, g)"
    and pb: "pbo g = [2, 3]" and mb: "mappedBuffers (calls c) = []"
    by (auto simp: gl_ok_def mappedBuffers_append)
  have d: "\<forall>s \<in> set ?ss. Surface_getWidth s = Surface_getWidth ?s0
             \<and> Surface_getHeight s = Surface_getHeight ?s0"
    by (simp add: Surface_getWidth_def Surface_getHeight_def)
  have m: "mapSucceeds gl_ok" by (simp add: gl_ok_def)
  from upload_alternates_buffers [OF h d m] pb mb h show ?thesis
    by (auto simp: numeral_3_eq_3)
qed

text \<open>A pipeline initialised at 2 by 1, resized to 2 by 1 and then to 3 by 1.\<close>

theorem resize_reallocates_once_witness:
  "\<exists>c g. Graphics_initialize gl_ok Graphics_ctor \<lparr>Surface.width = 2, height = 1, pixels = [7, 8]\<rparr>
            = Inr (c, g)
     \<and> Graphics_resize c g \<lparr>Surface.width = 2, height = 1, pixels = [9, 9]\<rparr> = Inr (c, g)
     \<and> (\<exists>c' g' new.
           Graphics_resize c g \<lparr>Surface.width = 3, height = 1, pixels = [7, 8, 9]\<rparr> = Inr (c', g')
           \<and> Graphics.width g' = 3 \<and> Graphics.height g' = 1
           \<and> calls c' = calls c @ new
           \<and> concat (map deleted new) = [1, 2, 3, 4, 5, 8]
           \<and> concat (map created new)
               = texture g' # pbo g' @ [vao g', vbo g', shaderProgram g'])"
proof -
  let ?s0 = "\<lparr>Surface.width = 2, height = 1, pixels = [7, 8]\<rparr>"
  let ?s1 = "\<lparr>Surface.width = 2, height = 1, pixels = [9, 9]\<rparr>"
  let ?s2 = "\<lparr>Surface.width = 3, height = 1, pixels = [7, 8, 9]\<rparr>"
  from Graphics_initialize_ok [of gl_ok Graphics_ctor ?s0]
  obtain c where h: "Graphics_initialize gl_ok Graphics_ctor ?s0
      = Inr (c, Graphics_ctor\<lparr>Graphics.width := 2, Graphics.height := 1, texture := 1,
                              pbo := [2, 3], vao := 4, vbo := 5, shaderProgram := 8\<rparr>)"
    and c: "nextName c = 9" "compileStatus c" "linkStatus c"
    by (auto simp: gl_ok_def Surface_getWidth_def Surface_getHeight_def)
  let ?g = "Graphics_ctor\<lparr>Graphics.width := 2, Graphics.height := 1, texture := 1,
                          pbo := [2, 3], vao := 4, vbo := 5, shaderProgram := 8\<rparr>"
  from resize_reallocates_once [of ?s1 ?g c] resize_reallocates_once [of ?s2 ?g c] h c
  show ?thesis
    by (auto simp: Surface_getWidth_def Surface_getHeight_def)
qed

section \<open>Properties of App\<close>

lemmas App_method_defs = App_enforceSetupCall_def App_setVSync_def App_setSize_def
  App_setPixelSize_def App_setTitle_def App_exit_def App_background_def App_background_rgb_def
  App_drawPixel_def App_drawPixel_rgba_def App_drawSurface_def

lemma App_call_keeps:
  assumes "App_call a c = Inr a'"
  shows "inSetupPhase a' = inSetupPhase a \<and> fps a' = fps a \<and> deltaTime a' = deltaTime a
         \<and> frameCount a' = frameCount a \<and> input a' = input a \<and> graphics a' = graphics a
         \<and> App.window a' = App.window a \<and> (surface a = None \<longrightarrow> surface a' = None)
         \<and> (surface a \<noteq> None \<longrightarrow> surface a' \<noteq> None)"
  using assms
  by (cases c) (auto simp: App_method_defs andThen_def Let_def split: if_splits option.splits sum.splits)

lemma App_calls_keeps:
  assumes "App_calls a cs = Inr a'"
  shows "inSetupPhase a' = inSetupPhase a \<and> fps a' = fps a \<and> deltaTime a' = deltaTime a
         \<and> frameCount a' = frameCount a \<and> input a' = input a \<and> graphics a' = graphics a
         \<and> App.window a' = App.window a \<and> (surface a = None \<longrightarrow> surface a' = None)
         \<and> (surface a \<noteq> None \<longrightarrow> surface a' \<noteq> None)"
  using assms
proof (induction cs arbitrary: a)
  case Nil
  then show ?case by simp
next
  case (Cons c cs)
  then obtain a1 where 1: "App_call a c = Inr a1" and 2: "App_calls a1 cs = Inr a'"
    by (auto split: sum.splits)
  from App_call_keeps [OF 1] Cons.IH [OF 2] show ?case by simp
qed

lemma setter_outside_setup:
  assumes "\<not> inSetupPhase a" "setterName c = Some name"
  shows "App_call a c = Inl (AssertionFailed (name @ '' must be called inside setup()''))"
  using assms by (cases c) (auto simp: App_method_defs)

lemma App_startup_Inr:
  assumes "App_startup ops glfw setup a c = Inr st"
  shows "\<not> inSetupPhase (app st) \<and> (\<exists>inp. input (app st) = Some inp)
         \<and> (\<exists>win. App.window (app st) = Some win)
         \<and> (\<exists>s. surface (app st) = Some s
                \<and> Surface_ctor (App.width (app st)) (App.height (app st))
                     (backgroundColor (app st)) = Inr s)
         \<and> (\<exists>a'. App_calls (a\<lparr>inSetupPhase := True\<rparr>) (setup (a\<lparr>inSetupPhase := True\<rparr>)) = Inr a'
                \<and> backgroundColor (app st) = backgroundColor a'
                \<and> shouldExit (app st) = shouldExit a')"
  using assms
  by (auto simp: App_startup_def Let_def andThen_def split: sum.splits prod.splits)

text \<open>
  Claim C4 (setters): each of \<^verbatim>\<open>setVSync\<close>, \<^verbatim>\<open>setSize\<close>, \<^verbatim>\<open>setPixelSize\<close> and
  \<^verbatim>\<open>setTitle\<close> succeeds and stores its value when the App is in the setup phase, and
  fails with the assertion of \<^verbatim>\<open>enforceSetupCall\<close> when it is not. In \<^verbatim>\<open>run\<close>, the
  calls of \<^verbatim>\<open>setup()\<close> are made in the setup phase: a \<^verbatim>\<open>setup()\<close> that calls the four
  setters starts the App as if it had been constructed with the four values. The
  calls of \<^verbatim>\<open>update()\<close> are made outside it: when the start-up succeeds and no exit
  was requested, a run whose \<^verbatim>\<open>update()\<close> begins with a setter ends in the first
  frame with that setter's assertion.
\<close>

theorem setters_only_in_setup:
  "(inSetupPhase a \<longrightarrow>
      App_setVSync a v = Inr (a\<lparr>App.vsyncEnabled := v\<rparr>)
      \<and> App_setSize a w h = Inr (a\<lparr>App.width := w, App.height := h\<rparr>)
      \<and> App_setPixelSize a n = Inr (a\<lparr>pixelSize := n\<rparr>)
      \<and> App_setTitle a t = Inr (a\<lparr>App.title := t\<rparr>))
   \<and> (\<not> inSetupPhase a \<longrightarrow>
      App_setVSync a v = Inl (AssertionFailed ''setVSync must be called inside setup()'')
      \<and> App_setSize a w h = Inl (AssertionFailed ''setSize must be called inside setup()'')
      \<and> App_setPixelSize a n
          = Inl (AssertionFailed ''setPixelSize must be called inside setup()'')
      \<and> App_setTitle a t = Inl (AssertionFailed ''setTitle must be called inside setup()''))
   \<and> App_startup ops glfw (\<lambda>_. [SetVSync v, SetSize w h, SetPixelSize n, SetTitle t]) a c
       = App_startup ops glfw (\<lambda>_. [])
           (a\<lparr>App.vsyncEnabled := v, App.width := w, App.height := h, pixelSize := n,
              App.title := t\<rparr>) c
   \<and> (App_startup ops glfw stp a c = Inr st \<and> \<not> shouldExit (app st)
       \<and> setterName call = Some name \<longrightarrow>
      App_run ops glfw (e # es) stp (\<lambda>_. call # rest) a c
        = Inl (AssertionFailed (name @ '' must be called inside setup()'')))"
proof (intro conjI impI)
  assume "inSetupPhase a"
  then show "App_setVSync a v = Inr (a\<lparr>App.vsyncEnabled := v\<rparr>)"
    and "App_setSize a w h = Inr (a\<lparr>App.width := w, App.height := h\<rparr>)"
    and "App_setPixelSize a n = Inr (a\<lparr>pixelSize := n\<rparr>)"
    and "App_setTitle a t = Inr (a\<lparr>App.title := t\<rparr>)"
    by (simp_all add: App_method_defs)
next
  assume "\<not> inSetupPhase a"
  then show "App_setVSync a v = Inl (AssertionFailed ''setVSync must be called inside setup()'')"
    and "App_setSize a w h = Inl (AssertionFailed ''setSize must be called inside setup()'')"
    and "App_setPixelSize a n
          = Inl (AssertionFailed ''setPixelSize must be called inside setup()'')"
    and "App_setTitle a t = Inl (AssertionFailed ''setTitle must be called inside setup()'')"
    by (simp_all add: App_method_defs)
next
  show "App_startup ops glfw (\<lambda>_. [SetVSync v, SetSize w h, SetPixelSize n, SetTitle t]) a c
       = App_startup ops glfw (\<lambda>_. [])
           (a\<lparr>App.vsyncEnabled := v, App.width := w, App.height := h, pixelSize := n,
              App.title := t\<rparr>) c"
    by (simp add: App_startup_def App_method_defs Let_def)
next
  assume h: "App_startup ops glfw stp a c = Inr st \<and> \<not> shouldExit (app st)
       \<and> setterName call = Some name"
  then have "App_startup ops glfw stp a c = Inr st" by simp
  from App_startup_Inr [OF this]
  obtain inp win where ph: "\<not> inSetupPhase (app st)" and inp: "input (app st) = Some inp"
    and win: "App.window (app st) = Some win"
    by blast
  let ?a = "(app st)\<lparr>deltaTime := delta e, input := Some (Input_poll inp (cursor e))\<rparr>"
  have "App_call ?a call = Inl (AssertionFailed (name @ '' must be called inside setup()''))"
    using ph h by (intro setter_outside_setup) simp_all
  then have "App_frame ops (\<lambda>_. call # rest) e st
               = Inl (AssertionFailed (name @ '' must be called inside setup()''))"
    using inp win by (simp add: App_frame_def Let_def)
  then show "App_run ops glfw (e # es) stp (\<lambda>_. call # rest) a c
        = Inl (AssertionFailed (name @ '' must be called inside setup()''))"
    using h by (simp add: App_run_def)
qed

text \<open>
  Claim C9 (pixel size and mouse position): in the setup phase \<^verbatim>\<open>setPixelSize\<close>
  stores any integer, 0 and the negative ones included. With an Input present,
  \<^verbatim>\<open>getMouseX\<close> and \<^verbatim>\<open>getMouseY\<close> divide the raw coordinate by the stored pixel size:
  when it is not 0 the result is the quotient truncated towards zero, and when it
  is 0 the division is made all the same, by zero. The only guard is on the Input:
  without one, both return 0.
\<close>

theorem pixelSize_unchecked_mouse_division:
  "(inSetupPhase a \<longrightarrow> App_setPixelSize a n = Inr (a\<lparr>pixelSize := n\<rparr>))
   \<and> (input a = Some inp \<and> pixelSize a \<noteq> 0 \<longrightarrow>
        App_getMouseX a
          = Inr (sgn (mouseX inp) * sgn (pixelSize a) * (\<bar>mouseX inp\<bar> div \<bar>pixelSize a\<bar>))
        \<and> App_getMouseY a
          = Inr (sgn (mouseY inp) * sgn (pixelSize a) * (\<bar>mouseY inp\<bar> div \<bar>pixelSize a\<bar>)))
   \<and> (input a = Some inp \<and> pixelSize a = 0 \<longrightarrow>
        App_getMouseX a = Inl DivisionByZero \<and> App_getMouseY a = Inl DivisionByZero)
   \<and> (input a = None \<longrightarrow> App_getMouseX a = Inr 0 \<and> App_getMouseY a = Inr 0)"
  by (simp add: App_method_defs App_getMouseX_def App_getMouseY_def c_div_def c_quot_def
      Input_getMouseWindowX_def Input_getMouseWindowY_def)






text \<open>
  Claim C7 (frames per second): an iteration of the loop adds the frame's delta
  time to the accumulated time and 1 to the accumulated frame count. When the
  accumulated time is then at least \<^verbatim>\<open>1.0f\<close>, the published value becomes the
  accumulated count divided by the accumulated time and both accumulators are
  reset to zero; otherwise the published value is the one before the iteration and
  the accumulators keep their sums.
\<close>

theorem fps_recomputed_each_second:
  assumes "App_frame ops update e st = Inr st'"
  shows "(f_ge ops (f_add ops (fpsTimer st) (delta e)) (f_one ops) \<longrightarrow>
            fps (app st') = f_div ops (f_of_int ops (fpsCounter st + 1))
                                      (f_add ops (fpsTimer st) (delta e))
            \<and> fpsTimer st' = f_zero ops \<and> fpsCounter st' = 0)
       \<and> (\<not> f_ge ops (f_add ops (fpsTimer st) (delta e)) (f_one ops) \<longrightarrow>
            fps (app st') = fps (app st)
            \<and> fpsTimer st' = f_add ops (fpsTimer st) (delta e)
            \<and> fpsCounter st' = fpsCounter st + 1)
       \<and> frameCount (app st') = frameCount (app st) + 1
       \<and> deltaTime (app st') = delta e"
proof -
  from assms obtain inp win where inp: "input (app st) = Some inp"
    and win: "App.window (app st) = Some win"
    by (auto simp: App_frame_def Let_def split: option.splits)
  let ?a = "(app st)\<lparr>deltaTime := delta e, input := Some (Input_poll inp (cursor e))\<rparr>"
  from assms inp win obtain a1 where u: "App_calls ?a (update ?a) = Inr a1"
    by (auto simp: App_frame_def Let_def andThen_def split: sum.splits)
  from App_calls_keeps [OF u]
  have k: "fps a1 = fps (app st)" "deltaTime a1 = delta e" "frameCount a1 = frameCount (app st)"
    by simp_all
  from assms inp win u obtain g s c g' where
    "graphics a1 = Some g" "surface a1 = Some s" "Graphics_upload (ctx st) g s = Inr (c, g')"
    by (auto simp: App_frame_def Let_def andThen_def split: sum.splits option.splits)
  with assms inp win u k show ?thesis
    by (auto simp: App_frame_def Let_def split: if_splits)
qed

lemma App_startup_succeeds:
  assumes "App_calls (a\<lparr>inSetupPhase := True\<rparr>) (stp (a\<lparr>inSetupPhase := True\<rparr>)) = Inr a'"
      and "0 < App.width a'" "0 < App.height a'"
      and "glfwInitOk glfw" "createdWindow glfw \<noteq> 0" "gladLoaded glfw"
      and "compileStatus c" "linkStatus c"
  shows "\<exists>st. App_startup ops glfw stp a c = Inr st \<and> shouldExit (app st) = shouldExit a'"
proof -
  let ?s = "\<lparr>Surface.width = App.width a', height = App.height a',
             pixels = replicate (nat (App.width a' * App.height a')) (toUInt32 (backgroundColor a'))\<rparr>"
  have p: "0 < App.width a' * App.height a'" using assms(2,3) by simp
  then have "\<not> App.width a' * App.height a' < 0" by simp
  then have s: "Surface_ctor (App.width a') (App.height a') (backgroundColor a') = Inr ?s"
    using assms(2,3) by (simp add: Surface_ctor_def)
  from Graphics_initialize_ok [OF assms(7,8), of Graphics_ctor ?s]
  obtain c' g' where g: "Graphics_initialize c Graphics_ctor ?s = Inr (c', g')"
    by blast
  show ?thesis
    using assms(1,4,5,6) s g
    by (simp add: App_startup_def Let_def Window_create_def Window_setVSync_def
        Window_getHandle_def Input_initialize_def)
qed

lemma App_call_keeps_dims:
  assumes "App_call a c = Inr a'" "surface a = Some s"
  shows "\<exists>s'. surface a' = Some s' \<and> Surface.width s' = Surface.width s
           \<and> Surface.height s' = Surface.height s"
proof (cases c)
  case (DrawPixel x y col)
  with assms show ?thesis
    by (auto simp: App_method_defs andThen_def split: sum.splits dest: Surface_setPixel_dims)
next
  case (DrawPixelRGBA x y r g b al)
  with assms show ?thesis
    by (auto simp: App_method_defs andThen_def split: sum.splits dest: Surface_setPixel_dims)
next
  case (DrawSurface src x y)
  with assms show ?thesis
    by (auto simp: App_method_defs Surface_blitTo_def andThen_def split: sum.splits
        dest: blitTo_rows_dims)
qed (use assms in \<open>auto simp: App_method_defs Surface_clear_def andThen_def Let_def
       split: if_splits\<close>)

lemma App_calls_keeps_dims:
  assumes "App_calls a cs = Inr a'" "surface a = Some s"
  shows "\<exists>s'. surface a' = Some s' \<and> Surface.width s' = Surface.width s
           \<and> Surface.height s' = Surface.height s"
  using assms
proof (induction cs arbitrary: a s)
  case Nil
  then show ?case by simp
next
  case (Cons c cs)
  then obtain a1 where 1: "App_call a c = Inr a1" and 2: "App_calls a1 cs = Inr a'"
    by (auto split: sum.splits)
  from App_call_keeps_dims [OF 1 Cons.prems(2)]
  obtain s1 where s1: "surface a1 = Some s1" "Surface.width s1 = Surface.width s"
      "Surface.height s1 = Surface.height s"
    by blast
  from Cons.IH [OF 2 s1(1)] s1 show ?case by auto
qed

text \<open>
  A frame entered in a running state completes, and leaves a running state, when
  the calls of \<^verbatim>\<open>update()\<close> complete.
\<close>

lemma App_frame_succeeds:
  assumes run: "App_running st"
      and inp: "input (app st) = Some inp"
      and upd: "App_calls ((app st)\<lparr>deltaTime := delta e,
                                     input := Some (Input_poll inp (cursor e))\<rparr>)
                  (update ((app st)\<lparr>deltaTime := delta e,
                                     input := Some (Input_poll inp (cursor e))\<rparr>)) = Inr a1"
  shows "\<exists>st'. App_frame ops update e st = Inr st' \<and> App_running st'"
proof -
  let ?a = "(app st)\<lparr>deltaTime := delta e, input := Some (Input_poll inp (cursor e))\<rparr>"
  from run inp obtain g s where gs: "graphics (app st) = Some g" "surface (app st) = Some s"
    and d: "Graphics.width g = Surface.width s" "Graphics.height g = Surface.height s"
    and m: "mapSucceeds (ctx st)" and ph: "\<not> inSetupPhase (app st)"
    and win: "App.window (app st) \<noteq> None"
    by (auto simp: App_running_def split: option.splits)
  from App_calls_keeps [OF upd] gs
  have k: "graphics a1 = Some g" "input a1 = Some (Input_poll inp (cursor e))"
          "\<not> inSetupPhase a1" "App.window a1 \<noteq> None"
    using ph win by simp_all
  from App_calls_keeps_dims [OF upd, of s] gs
  obtain s1 where s1: "surface a1 = Some s1" "Surface.width s1 = Surface.width s"
      "Surface.height s1 = Surface.height s"
    by auto
  have u: "Surface_getWidth s1 = Graphics.width g" "Surface_getHeight s1 = Graphics.height g"
    using s1 d by (simp_all add: Surface_getWidth_def Surface_getHeight_def)
  show ?thesis
    using inp win upd k s1 d m Graphics_upload_ok [OF u m]
    by (auto simp: App_frame_def Let_def App_running_def Graphics_render_def emit_def)
qed

lemma App_startup_running:
  assumes "App_startup ops glfw stp a c = Inr st" "mapSucceeds c"
  shows "App_running st"
proof -
  from assms(1) have "\<exists>inp s g. input (app st) = Some inp \<and> surface (app st) = Some s
         \<and> graphics (app st) = Some g \<and> \<not> inSetupPhase (app st)
         \<and> App.window (app st) \<noteq> None
         \<and> Graphics_initialize c Graphics_ctor s = Inr (ctx st, g)"
    by (auto simp: App_startup_def Let_def andThen_def split: sum.splits prod.splits)
  then obtain inp s g where f: "input (app st) = Some inp" "surface (app st) = Some s"
      "graphics (app st) = Some g" "\<not> inSetupPhase (app st)" "App.window (app st) \<noteq> None"
    and i: "Graphics_initialize c Graphics_ctor s = Inr (ctx st, g)"
    by blast
  from Graphics_initialize_Inr_status [OF i] Graphics_initialize_ok [of c Graphics_ctor s] i
  have "Graphics.width g = Surface.width s \<and> Graphics.height g = Surface.height s
        \<and> mapSucceeds (ctx st)"
    using assms(2) by (auto simp: Surface_getWidth_def Surface_getHeight_def)
  then show ?thesis using f by (simp add: App_running_def)
qed

text \<open>
  Two frames of half a second: after 3/4 s and two frames, the third frame
  publishes 3 / (5/4) = 12/5 (not 1 / (1/2) = 2); after 1/4 s and one frame, the
  second frame publishes nothing.
\<close>

theorem fps_recomputed_each_second_witness:
  "(\<exists>st'. App_frame exact (\<lambda>_. []) \<lparr>delta = 1 / 2, cursor = (3, 4)\<rparr> (demo_state (3 / 4) 2) = Inr st'
      \<and> fps (app st') = 12 / 5 \<and> fpsTimer st' = 0 \<and> fpsCounter st' = 0
      \<and> frameCount (app st') = 1)
   \<and> (\<exists>st'. App_frame exact (\<lambda>_. []) \<lparr>delta = 1 / 2, cursor = (3, 4)\<rparr> (demo_state (1 / 4) 1) = Inr st'
      \<and> fps (app st') = 0 \<and> fpsTimer st' = 3 / 4 \<and> fpsCounter st' = 2)"
proof -
  let ?e = "\<lparr>delta = 1 / 2 :: rat, cursor = (3, 4)\<rparr>"
  obtain st1 where 1: "App_frame exact (\<lambda>_. []) ?e (demo_state (3 / 4) 2) = Inr st1"
    using App_frame_succeeds [of "demo_state (3 / 4) 2" "Input_ctor\<lparr>Input.window := 1\<rparr>"
            ?e "\<lambda>_. []" _ exact]
    by (auto simp: demo_state_def demo_graphics_def demo_surface_def gl_ok_def App_running_def
        App_ctor_def)
  obtain st2 where 2: "App_frame exact (\<lambda>_. []) ?e (demo_state (1 / 4) 1) = Inr st2"
    using App_frame_succeeds [of "demo_state (1 / 4) 1" "Input_ctor\<lparr>Input.window := 1\<rparr>"
            ?e "\<lambda>_. []" _ exact]
    by (auto simp: demo_state_def demo_graphics_def demo_surface_def gl_ok_def App_running_def
        App_ctor_def)
  from fps_recomputed_each_second [OF 1] fps_recomputed_each_second [OF 2] 1 2
  show ?thesis
    by (simp add: demo_state_def exact_def App_ctor_def)
qed

text \<open>
  A start-up that sets the size to 4 by 4, then an \<^verbatim>\<open>update()\<close> that calls
  \<^verbatim>\<open>setPixelSize(2)\<close>.
\<close>

theorem setters_only_in_setup_witness:
  "App_setSize ((App_ctor exact)\<lparr>inSetupPhase := True\<rparr>) 320 240
     = Inr ((App_ctor exact)\<lparr>inSetupPhase := True, App.width := 320, App.height := 240\<rparr>)
   \<and> App_setTitle (App_ctor exact) ''Demo''
     = Inl (AssertionFailed ''setTitle must be called inside setup()'')
   \<and> App_run exact glfw_ok [\<lparr>delta = 1 / 60, cursor = (0, 0)\<rparr>]
        (\<lambda>_. [SetSize 4 4]) (\<lambda>_. [SetPixelSize 2, DrawPixel 0 0 Color_Red]) (App_ctor exact) gl_ok
     = Inl (AssertionFailed ''setPixelSize must be called inside setup()'')"
proof -
  let ?a = "App_ctor exact :: rat App"
  obtain st where s: "App_startup exact glfw_ok (\<lambda>_. [SetSize 4 4]) ?a gl_ok = Inr st"
    and x: "\<not> shouldExit (app st)"
    using App_startup_succeeds [of ?a "\<lambda>_. [SetSize 4 4]"
            "?a\<lparr>inSetupPhase := True, App.width := 4, App.height := 4\<rparr>" glfw_ok gl_ok exact]
    by (auto simp: App_method_defs glfw_ok_def gl_ok_def App_ctor_def)
  have n: "setterName (SetPixelSize 2) = Some ''setPixelSize''" by simp
  from setters_only_in_setup
         [where a = "?a\<lparr>inSetupPhase := True\<rparr>" and w = 320 and h = 240]
  have 1: "App_setSize (?a\<lparr>inSetupPhase := True\<rparr>) 320 240
     = Inr (?a\<lparr>inSetupPhase := True, App.width := 320, App.height := 240\<rparr>)"
    by simp
  from setters_only_in_setup [where a = ?a and t = "''Demo''"]
  have 2: "App_setTitle ?a ''Demo''
     = Inl (AssertionFailed ''setTitle must be called inside setup()'')"
    by (simp add: App_ctor_def)
  from setters_only_in_setup
         [where ops = exact and glfw = glfw_ok and a = ?a and c = gl_ok and st = st
            and stp = "\<lambda>_. [SetSize 4 4]" and call = "SetPixelSize 2"
            and name = "''setPixelSize''" and e = "\<lparr>delta = 1 / 60, cursor = (0, 0)\<rparr>"
            and es = "[]" and rest = "[DrawPixel 0 0 Color_Red]"]
       s x n
  have 3: "App_run exact glfw_ok [\<lparr>delta = 1 / 60, cursor = (0, 0)\<rparr>]
        (\<lambda>_. [SetSize 4 4]) (\<lambda>_. [SetPixelSize 2, DrawPixel 0 0 Color_Red]) ?a gl_ok
     = Inl (AssertionFailed ''setPixelSize must be called inside setup()'')"
    by simp
  from 1 2 3 show ?thesis by blast
qed

text \<open>The raw position (-7, 9) with the pixel sizes 2 and 0.\<close>

theorem pixelSize_unchecked_mouse_division_witness:
  "App_setPixelSize ((App_ctor exact)\<lparr>inSetupPhase := True\<rparr>) 0
     = Inr ((App_ctor exact)\<lparr>inSetupPhase := True, pixelSize := 0\<rparr>)
   \<and> App_setPixelSize ((App_ctor exact)\<lparr>inSetupPhase := True\<rparr>) (- 3)
     = Inr ((App_ctor exact)\<lparr>inSetupPhase := True, pixelSize := - 3\<rparr>)
   \<and> App_getMouseX ((App_ctor exact)
         \<lparr>pixelSize := 2, input := Some \<lparr>Input.window = 1, mouseX = - 7, mouseY = 9\<rparr>\<rparr>) = Inr (- 3)
   \<and> App_getMouseY ((App_ctor exact)
         \<lparr>pixelSize := 2, input := Some \<lparr>Input.window = 1, mouseX = - 7, mouseY = 9\<rparr>\<rparr>) = Inr 4
   \<and> App_getMouseX ((App_ctor exact)
         \<lparr>pixelSize := 0, input := Some \<lparr>Input.window = 1, mouseX = - 7, mouseY = 9\<rparr>\<rparr>)
       = Inl DivisionByZero"
  using pixelSize_unchecked_mouse_division
          [where a = "(App_ctor exact)\<lparr>inSetupPhase := True\<rparr>" and n = 0]
        pixelSize_unchecked_mouse_division
          [where a = "(App_ctor exact)\<lparr>inSetupPhase := True\<rparr>" and n = "- 3"]
        pixelSize_unchecked_mouse_division
          [where a = "(App_ctor exact)
             \<lparr>pixelSize := 2, input := Some \<lparr>Input.window = 1, mouseX = - 7, mouseY = 9\<rparr>\<rparr>"
           and inp = "\<lparr>Input.window = 1, mouseX = - 7, mouseY = 9\<rparr>"]
        pixelSize_unchecked_mouse_division
          [where a = "(App_ctor exact)
             \<lparr>pixelSize := 0, input := Some \<lparr>Input.window = 1, mouseX = - 7, mouseY = 9\<rparr>\<rparr>"
           and inp = "\<lparr>Input.window = 1, mouseX = - 7, mouseY = 9\<rparr>"]
  by simp


subsection \<open>The run returns\<close>

text \<open>
  The loop returns, in a running state, when no \<^verbatim>\<open>update()\<close> call fails: it ends
  with the frames (the close signal) or with the exit request.
\<close>

lemma App_loop_succeeds:
  assumes "App_running st"
      and "\<And>a. \<not> inSetupPhase a \<Longrightarrow> \<exists>a1. App_calls a (update a) = Inr a1"
  shows "\<exists>st'. App_loop ops update frames st = Inr st' \<and> App_running st'"
  using assms(1)
proof (induction frames arbitrary: st)
  case Nil
  then show ?case by simp
next
  case (Cons e es)
  show ?case
  proof (cases "shouldExit (app st)")
    case True
    then show ?thesis using Cons.prems by simp
  next
    case False
    from Cons.prems obtain inp where inp: "input (app st) = Some inp"
      and ph: "\<not> inSetupPhase (app st)"
      by (auto simp: App_running_def split: option.splits)
    let ?a = "(app st)\<lparr>deltaTime := delta e, input := Some (Input_poll inp (cursor e))\<rparr>"
    from assms(2) [of ?a] ph obtain a1 where "App_calls ?a (update ?a) = Inr a1"
      by auto
    from App_frame_succeeds [of st inp e update a1 ops, OF Cons.prems inp this]
    obtain st1 where 1: "App_frame ops update e st = Inr st1" and "App_running st1"
      by blast
    from Cons.IH [OF this(2)] obtain st' where "App_loop ops update es st1 = Inr st'"
      and "App_running st'"
      by blast
    then show ?thesis using False 1 by simp
  qed
qed

lemma App_frame_keeps_window:
  assumes "App_frame ops update e st = Inr st'"
  shows "App.window (app st') = App.window (app st)"
proof -
  from assms obtain inp win where inp: "input (app st) = Some inp"
    and win: "App.window (app st) = Some win"
    by (auto simp: App_frame_def Let_def split: option.splits)
  let ?a = "(app st)\<lparr>deltaTime := delta e, input := Some (Input_poll inp (cursor e))\<rparr>"
  from assms inp win obtain a1 where u: "App_calls ?a (update ?a) = Inr a1"
    by (auto simp: App_frame_def Let_def andThen_def split: sum.splits)
  from App_calls_keeps [OF u] have "App.window a1 = App.window (app st)" by simp
  with assms inp win u show ?thesis
    by (auto simp: App_frame_def Let_def andThen_def
        split: sum.splits option.splits prod.splits if_splits)
qed

lemma App_loop_keeps_window:
  assumes "App_loop ops update frames st = Inr st'"
  shows "App.window (app st') = App.window (app st)"
  using assms
proof (induction frames arbitrary: st)
  case Nil
  then show ?case by simp
next
  case (Cons e es)
  show ?case
  proof (cases "shouldExit (app st)")
    case True
    then show ?thesis using Cons.prems by simp
  next
    case False
    with Cons.prems obtain st1 where 1: "App_frame ops update e st = Inr st1"
      and 2: "App_loop ops update es st1 = Inr st'"
      by (auto split: sum.splits)
    from Cons.IH [OF 2] App_frame_keeps_window [OF 1] show ?thesis by simp
  qed
qed

lemma App_run_succeeds:
  assumes "App_calls (a\<lparr>inSetupPhase := True\<rparr>) (stp (a\<lparr>inSetupPhase := True\<rparr>)) = Inr a'"
      and "0 < App.width a'" "0 < App.height a'"
      and "glfwInitOk glfw" "createdWindow glfw \<noteq> 0" "gladLoaded glfw"
      and "compileStatus c" "linkStatus c" "mapSucceeds c"
      and "\<And>a. \<not> inSetupPhase a \<Longrightarrow> \<exists>a1. App_calls a (update a) = Inr a1"
  shows "\<exists>st. App_run ops glfw frames stp update a c = Inr st"
proof -
  from App_startup_succeeds [of a stp a' glfw c ops, OF assms(1-8)]
  obtain st0 where 0: "App_startup ops glfw stp a c = Inr st0" by blast
  then have w: "\<exists>win. App.window (app st0) = Some win"
    by (auto simp: App_startup_def Let_def andThen_def split: sum.splits prod.splits)
  from App_startup_running [OF 0 assms(9)] have "App_running st0" .
  from App_loop_succeeds [OF this assms(10), of ops frames]
  obtain st1 where 1: "App_loop ops update frames st0 = Inr st1" by blast
  have "App.window (app st1) = App.window (app st0)"
    using 1 by (rule App_loop_keeps_window)
  with w 0 1 show ?thesis
    by (auto simp: App_run_def App_shutdown_def)
qed

end
